theory Spec2Isabelle
  imports Main "HOL-Library.Word" "HOL-Library.AList"
begin

unbundle bit_operations_syntax

section \<open>Strings, decimal and hexadecimal text\<close>

text \<open>
  A Go \<^verbatim>\<open>string\<close> and a \<^verbatim>\<open>[]byte\<close> are byte sequences; both are modelled as
  \<^typ>\<open>string\<close>, whose characters are bytes. The constant \<^verbatim>\<open>separator = "\u001F"\<close>
  of anki.go is the single byte 0x1F.
\<close>

definition separator :: string where
  "separator = [char_of (31::nat)]"

text \<open>The digit tables of \<^verbatim>\<open>strconv\<close> and \<^verbatim>\<open>fmt\<close>; every index the code uses is in range.\<close>

definition digit :: "nat \<Rightarrow> char" where
  "digit n = ''0123456789'' ! n"

fun digits :: "nat \<Rightarrow> string" where
  "digits n = (if n < 10 then [digit n] else digits (n div 10) @ [digit (n mod 10)])"

declare digits.simps [simp del]

text \<open>
  \<^verbatim>\<open>strconv.FormatInt(x, 10)\<close>, \<^verbatim>\<open>strconv.Itoa(i)\<close> and the verb \<^verbatim>\<open>%d\<close> of
  \<^verbatim>\<open>fmt.Sprintf\<close>: the decimal digits, with a leading minus sign for a negative number.
\<close>

definition FormatInt :: "int \<Rightarrow> string" where
  "FormatInt x = (if x < 0 then CHR ''-'' # digits (nat (- x)) else digits (nat x))"

definition Itoa :: "nat \<Rightarrow> string" where
  "Itoa i = FormatInt (int i)"

text \<open>The number that a string of decimal digits denotes.\<close>

definition dec_val :: "string \<Rightarrow> nat" where
  "dec_val s = fold (\<lambda>c a. 10 * a + (of_char c - 48)) s 0"

definition hexdigit :: "nat \<Rightarrow> char" where
  "hexdigit n = ''0123456789abcdef'' ! n"

text \<open>The verb \<^verbatim>\<open>%x\<close> on a byte array: two lower-case hexadecimal digits per byte.\<close>

definition hex :: "string \<Rightarrow> string" where
  "hex bs = concat (map (\<lambda>b. [hexdigit (of_char b div 16), hexdigit (of_char b mod 16)]) bs)"

section \<open>The library hash \<^verbatim>\<open>crypto/sha1\<close>\<close>

text \<open>
  \<^verbatim>\<open>sha1.Sum\<close> is SHA-1 (FIPS 180-4): the message is padded to a multiple of 64 bytes
  with the byte 0x80, zeros and the bit length as a big-endian 64-bit number; each
  64-byte block is expanded to 80 words of 32 bits and folded into five chaining words.
\<close>

type_synonym u32 = "32 word"

type_synonym digest = "u32 \<times> u32 \<times> u32 \<times> u32 \<times> u32"

definition be32 :: "string \<Rightarrow> u32" where
  "be32 bs = fold (\<lambda>b acc. push_bit 8 acc OR of_char b) bs 0"

definition putUint64 :: "nat \<Rightarrow> string" where
  "putUint64 n = map (\<lambda>i. char_of (drop_bit (8 * (7 - i)) n)) [0..<8]"

definition putUint32 :: "u32 \<Rightarrow> string" where
  "putUint32 x = map (\<lambda>i. char_of (unat (drop_bit (8 * (3 - i)) x))) [0..<4]"

definition pad :: "string \<Rightarrow> string" where
  "pad msg = msg @ [char_of (128::nat)]
       @ replicate ((119 - length msg mod 64) mod 64) (char_of (0::nat))
       @ putUint64 (8 * length msg mod 2 ^ 64)"

definition blocks :: "string \<Rightarrow> string list" where
  "blocks p = map (\<lambda>i. take 64 (drop (64 * i) p)) [0..<length p div 64]"

fun schedule :: "nat \<Rightarrow> u32 list \<Rightarrow> u32 list" where
  "schedule 0 w = w"
| "schedule (Suc n) w =
     (let t = length w
      in schedule n
           (w @ [word_rotl 1 (w ! (t - 3) XOR w ! (t - 8) XOR w ! (t - 14) XOR w ! (t - 16))]))"

definition round1 :: "nat \<Rightarrow> u32 \<Rightarrow> digest \<Rightarrow> digest" where
  "round1 t wt s = (case s of (a, b, c, d, e) \<Rightarrow>
     (let f = (if t < 20 then (b AND c) OR (NOT b AND d)
               else if t < 40 then b XOR c XOR d
               else if t < 60 then ((b OR c) AND d) OR (b AND c)
               else b XOR c XOR d);
          k = (if t < 20 then 0x5A827999 else if t < 40 then 0x6ED9EBA1
               else if t < 60 then 0x8F1BBCDC else 0xCA62C1D6)
      in (word_rotl 5 a + f + e + wt + k, a, word_rotl 30 b, c, d)))"

definition block1 :: "digest \<Rightarrow> string \<Rightarrow> digest" where
  "block1 h p =
     (let w = schedule 64 (map (\<lambda>i. be32 (take 4 (drop (4 * i) p))) [0..<16]);
          r = fold (\<lambda>t s. round1 t (w ! t) s) [0..<80] h
      in (case h of (h0, h1, h2, h3, h4) \<Rightarrow> case r of (a, b, c, d, e) \<Rightarrow>
            (h0 + a, h1 + b, h2 + c, h3 + d, h4 + e)))"

definition sha1_Sum :: "string \<Rightarrow> string" where
  "sha1_Sum msg =
     (case fold (\<lambda>p h. block1 h p) (blocks (pad msg))
             (0x67452301, 0xEFCDAB89, 0x98BADCFE, 0x10325476, 0xC3D2E1F0) of
        (h0, h1, h2, h3, h4) \<Rightarrow> concat (map putUint32 [h0, h1, h2, h3, h4]))"

section \<open>\<^verbatim>\<open>strconv.ParseInt(s, 16, 64)\<close>\<close>

datatype error =
    StoreError string
  | Wrapped string error
  | Panic string
  | ErrSyntax
  | ErrRange
  | UnmarshalTypeError

definition hexval :: "char \<Rightarrow> nat option" where
  "hexval c =
     (let n = (of_char c :: nat)
      in if 48 \<le> n \<and> n \<le> 57 then Some (n - 48)
         else if 97 \<le> n \<and> n \<le> 102 then Some (n - 87)
         else if 65 \<le> n \<and> n \<le> 70 then Some (n - 55)
         else None)"

fun hexnum :: "nat \<Rightarrow> string \<Rightarrow> nat option" where
  "hexnum acc [] = Some acc"
| "hexnum acc (c # cs) = (case hexval c of None \<Rightarrow> None | Some v \<Rightarrow> hexnum (16 * acc + v) cs)"

text \<open>
  The result pair of \<^verbatim>\<open>ParseInt\<close>: on a syntax error the value is 0, on a range error
  it is the nearest bound of int64.
\<close>

definition ParseInt16 :: "string \<Rightarrow> int \<times> error option" where
  "ParseInt16 s =
     (let neg = (s \<noteq> [] \<and> hd s = CHR ''-'');
          ds = (if s \<noteq> [] \<and> (hd s = CHR ''-'' \<or> hd s = CHR ''+'') then tl s else s)
      in if ds = [] then (0, Some ErrSyntax)
         else (case hexnum 0 ds of
                 None \<Rightarrow> (0, Some ErrSyntax)
               | Some v \<Rightarrow>
                   if \<not> neg \<and> 2 ^ 63 \<le> v then (2 ^ 63 - 1, Some ErrRange)
                   else if neg \<and> 2 ^ 63 < v then (- (2 ^ 63), Some ErrRange)
                   else (if neg then - int v else int v, None)))"

section \<open>What the store does to a text bound to an integer column\<close>

text \<open>
  The schema declares \<^verbatim>\<open>notes.sfld\<close> as \<^verbatim>\<open>integer\<close> and the code binds a Go string to it.
  SQLite gives such a column INTEGER affinity: a text that is a well-formed number, with
  white space allowed around it, is stored as a number, any other text as it is. The
  recogniser follows \<^verbatim>\<open>sqlite3AtoF\<close>: white space, a sign, digits, a point and digits, an
  exponent with its sign and digits, white space; at least one digit before the exponent.
\<close>

datatype num_class = NotNumeric | IntLit int | RealLit

definition sqlite3Isspace :: "char \<Rightarrow> bool" where
  "sqlite3Isspace c = (c = CHR 0x20 \<or> (9 \<le> (of_char c :: nat) \<and> (of_char c :: nat) \<le> 13))"

definition sqlite3Isdigit :: "char \<Rightarrow> bool" where
  "sqlite3Isdigit c = (48 \<le> (of_char c :: nat) \<and> (of_char c :: nat) \<le> 57)"

definition strip_sign :: "string \<Rightarrow> bool \<times> string" where
  "strip_sign s =
     (case s of
        [] \<Rightarrow> (False, [])
      | c # r \<Rightarrow> if c = CHR ''-'' then (True, r) else if c = CHR ''+'' then (False, r) else (False, s))"

text \<open>
  The rest of a number after its digits: whether it is well formed up to the end of the
  text, and whether it has an exponent.
\<close>

definition exponent_part :: "string \<Rightarrow> bool \<times> bool" where
  "exponent_part s =
     (case s of
        [] \<Rightarrow> (True, False)
      | c # r \<Rightarrow>
          if c = CHR ''e'' \<or> c = CHR ''E'' then
            (let r' = snd (strip_sign r)
             in (takeWhile sqlite3Isdigit r' \<noteq> []
                   \<and> dropWhile sqlite3Isspace (dropWhile sqlite3Isdigit r') = [], True))
          else (dropWhile sqlite3Isspace s = [], False))"

definition sqlite3AtoF :: "string \<Rightarrow> num_class" where
  "sqlite3AtoF s =
     (let s1 = dropWhile sqlite3Isspace s
      in if s1 = [] then NotNumeric
         else
           (let neg = fst (strip_sign s1); s2 = snd (strip_sign s1);
                ds = takeWhile sqlite3Isdigit s2; s3 = dropWhile sqlite3Isdigit s2
            in case s3 of
                 c # r \<Rightarrow>
                   if c = CHR ''.'' then
                     (if fst (exponent_part (dropWhile sqlite3Isdigit r))
                         \<and> (ds \<noteq> [] \<or> takeWhile sqlite3Isdigit r \<noteq> [])
                      then RealLit else NotNumeric)
                   else if fst (exponent_part s3) \<and> ds \<noteq> [] then
                     (if snd (exponent_part s3) then RealLit
                      else IntLit (if neg then - int (dec_val ds) else int (dec_val ds)))
                   else NotNumeric
               | [] \<Rightarrow>
                   if ds \<noteq> [] then IntLit (if neg then - int (dec_val ds) else int (dec_val ds))
                   else NotNumeric))"

text \<open>
  A value of the column: an integer, a text, or the number that a text with a point, an
  exponent or too many digits for an int64 denotes. For the last the engine goes through
  a float64 and stores an integer or a real; which of the two, and its digits, are not
  computed here, the value is named by its text.
\<close>

datatype sql_value = SqlInt int | SqlNumber string | SqlText string

definition integer_affinity :: "string \<Rightarrow> sql_value" where
  "integer_affinity s =
     (case sqlite3AtoF s of
        NotNumeric \<Rightarrow> SqlText s
      | IntLit v \<Rightarrow> if - (2 ^ 63) \<le> v \<and> v < 2 ^ 63 then SqlInt v else SqlNumber s
      | RealLit \<Rightarrow> SqlNumber s)"

section \<open>What \<^verbatim>\<open>json.Marshal\<close> does to a string\<close>

text \<open>
  \<^verbatim>\<open>json.Marshal\<close> writes a Go string coerced to valid UTF-8: it decodes the bytes as
  \<^verbatim>\<open>utf8.DecodeRuneInString\<close> does, and every byte that does not start a valid encoding is
  written as U+FFFD (the bytes EF BF BD once the text is read back). \<open>rune_len\<close> is the
  length of the valid encoding at the head of a string, 0 when there is none.
\<close>

definition rune_len :: "string \<Rightarrow> nat" where
  "rune_len s =
     (case s of
        [] \<Rightarrow> 0
      | c # r \<Rightarrow>
          (let x = (of_char c :: nat)
           in if x < 128 then 1
              else if x < 194 \<or> 244 < x then 0
              else
                (let sz = (if x < 224 then 2 else if x < 240 then 3 else 4 :: nat);
                     lo = (if x = 224 then 160 else if x = 240 then 144 else 128 :: nat);
                     hi = (if x = 237 then 159 else if x = 244 then 143 else 191 :: nat);
                     cont = (\<lambda>b. 128 \<le> (of_char b :: nat) \<and> (of_char b :: nat) \<le> 191)
                 in if length s < sz then 0
                    else if (of_char (s ! 1) :: nat) < lo \<or> hi < (of_char (s ! 1) :: nat) then 0
                    else if sz = 2 then 2
                    else if \<not> cont (s ! 2) then 0
                    else if sz = 3 then 3
                    else if \<not> cont (s ! 3) then 0
                    else 4)))"

function json_coerce :: "string \<Rightarrow> string" where
  "json_coerce [] = []"
| "json_coerce (c # r) =
     (if rune_len (c # r) = 0 then [CHR 0xEF, CHR 0xBF, CHR 0xBD] @ json_coerce r
      else take (rune_len (c # r)) (c # r) @ json_coerce (drop (rune_len (c # r)) (c # r)))"
  by pat_completeness auto
termination
  by (relation "measure length") (auto simp add: drop_Cons split: nat.splits)

text \<open>\<^verbatim>\<open>utf8.ValidString\<close>\<close>

function ValidString :: "string \<Rightarrow> bool" where
  "ValidString [] = True"
| "ValidString (c # r) =
     (if rune_len (c # r) = 0 then False else ValidString (drop (rune_len (c # r)) (c # r)))"
  by pat_completeness auto
termination
  by (relation "measure length") (auto simp add: drop_Cons split: nat.splits)

section \<open>The deck and its store\<close>

record Media =
  Filename :: string
  Data :: string

record CardOptions =
  Tags :: "string list"

record TemplateOptions =
  QuestionFormat :: string
  AnswerFormat :: string
  CSS :: string

text \<open>
  The values that \<^verbatim>\<open>encoding/json\<close> reads and writes. The numbers of the seed blobs are
  integers; an object is a list of key and value pairs with distinct keys. The other
  strings of the seed blobs are ASCII, which the coercion leaves as they are.
\<close>

datatype json =
    JNull
  | JBool bool
  | JNum int
  | JStr string
  | JArr "json list"
  | JObj "(string \<times> json) list"

text \<open>The columns of the tables \<^verbatim>\<open>notes\<close> and \<^verbatim>\<open>cards\<close>, in the order of the schema.\<close>

record note_row =
  n_id :: int
  n_guid :: string
  n_mid :: int
  n_mod :: int
  n_usn :: int
  n_tags :: string
  n_flds :: string
  n_sfld :: sql_value
  n_csum :: int
  n_flags :: int
  n_data :: string

record card_row =
  c_id :: int
  c_nid :: int
  c_did :: int
  c_ord :: int
  c_mod :: int
  c_usn :: int
  c_type :: int
  c_queue :: int
  c_due :: int
  c_ivl :: int
  c_factor :: int
  c_reps :: int
  c_lapses :: int
  c_left :: int
  c_odue :: int
  c_odid :: int
  c_flags :: int
  c_data :: string

text \<open>
  The in-memory SQLite store of one deck: the two JSON blobs of the single \<^verbatim>\<open>col\<close> row
  that the code rewrites (each blob is kept as the value its text denotes), and the rows
  of \<^verbatim>\<open>notes\<close> and \<^verbatim>\<open>cards\<close>. A row holds the values as the store keeps them. The code
  binds integers to the integer columns and strings to the text columns, which the store
  keeps as they are; the one string bound to an integer column is \<^verbatim>\<open>sfld\<close>.
\<close>

record database =
  col_decks :: json
  col_models :: json
  notes_tbl :: "note_row list"
  cards_tbl :: "card_row list"

record Deck =
  name :: string
  db :: database
  media :: "Media list"
  topDeckID :: int
  topModelID :: int

section \<open>Identifier assignment\<close>

text \<open>
  An int64 is modelled as an \<^typ>\<open>int\<close>; the one addition of the code that can leave
  the range, \<^verbatim>\<open>maxID.Int64 + 1\<close>, wraps around as Go's does.
\<close>

definition wrap64 :: "int \<Rightarrow> int" where
  "wrap64 x = (x + 2 ^ 63) mod 2 ^ 64 - 2 ^ 63"

text \<open>
  The column that \<^verbatim>\<open>SELECT col FROM table\<close> reads. A table or column that the store
  does not have makes the query fail, which is \<open>None\<close>.
\<close>

definition column :: "database \<Rightarrow> string \<Rightarrow> string \<Rightarrow> int list option" where
  "column s table col =
     (if table = ''notes'' then
        (if col = ''id'' then Some (map n_id (notes_tbl s))
         else if col = ''mid'' then Some (map n_mid (notes_tbl s))
         else if col = ''mod'' then Some (map n_mod (notes_tbl s))
         else None)
      else if table = ''cards'' then
        (if col = ''id'' then Some (map c_id (cards_tbl s))
         else if col = ''nid'' then Some (map c_nid (cards_tbl s))
         else if col = ''did'' then Some (map c_did (cards_tbl s))
         else if col = ''mod'' then Some (map c_mod (cards_tbl s))
         else None)
      else None)"

text \<open>
  \<^verbatim>\<open>SELECT col FROM table WHERE col >= ? ORDER BY col DESC LIMIT 1\<close>: the greatest value
  of the column that is at least \<open>ts\<close>. With no such row (or a failed query) the result
  is \<open>ts\<close>, otherwise one more than that value.
\<close>

definition getID :: "Deck \<Rightarrow> string \<Rightarrow> string \<Rightarrow> int \<Rightarrow> int" where
  "getID d table col ts =
     (case column (db d) table col of
        None \<Rightarrow> ts
      | Some vs \<Rightarrow>
          (case filter (\<lambda>v. ts \<le> v) vs of
             [] \<Rightarrow> ts
           | w # ws \<Rightarrow> wrap64 (Max (set (w # ws)) + 1)))"

definition getNoteID :: "Deck \<Rightarrow> string \<Rightarrow> int \<Rightarrow> int" where
  "getNoteID d guid ts =
     (case filter (\<lambda>r. n_guid r = guid) (notes_tbl (db d)) of
        [] \<Rightarrow> getID d ''notes'' ''id'' ts
      | r # rs \<Rightarrow> Max (set (map n_id (r # rs))))"

definition getNoteGUID :: "Deck \<Rightarrow> int \<Rightarrow> string \<Rightarrow> string \<Rightarrow> string" where
  "getNoteGUID d deckID front back = hex (sha1_Sum (FormatInt deckID @ front @ back))"

definition getCardID :: "Deck \<Rightarrow> int \<Rightarrow> int \<Rightarrow> int" where
  "getCardID d noteID ts =
     (case filter (\<lambda>r. c_nid r = noteID) (cards_tbl (db d)) of
        [] \<Rightarrow> getID d ''cards'' ''id'' ts
      | r # rs \<Rightarrow> Max (set (map c_id (r # rs))))"

definition checksum :: "Deck \<Rightarrow> string \<Rightarrow> int" where
  "checksum d str = fst (ParseInt16 (take 8 (hex (sha1_Sum str))))"

section \<open>Adding cards and media\<close>

text \<open>
  What one call of \<^verbatim>\<open>AddCardWithOptions\<close> reads from outside the deck: the clock, and
  for each of its two \<^verbatim>\<open>Exec\<close> statements whether the store reports an error
  (\<open>Some\<close> message) instead of running it. A statement that fails changes no row.
\<close>

record add_env =
  now :: int
  noteFault :: "string option"
  cardFault :: "string option"

text \<open>
  \<^verbatim>\<open>INSERT OR REPLACE\<close> on a table whose first column is the integer primary key: a row
  with the same id is deleted, then the new row is inserted.
\<close>

definition replace_note :: "note_row \<Rightarrow> database \<Rightarrow> database" where
  "replace_note r s = s\<lparr>notes_tbl := filter (\<lambda>x. n_id x \<noteq> n_id r) (notes_tbl s) @ [r]\<rparr>"

definition replace_card :: "card_row \<Rightarrow> database \<Rightarrow> database" where
  "replace_card r s = s\<lparr>cards_tbl := filter (\<lambda>x. c_id x \<noteq> c_id r) (cards_tbl s) @ [r]\<rparr>"

text \<open>\<^verbatim>\<open>strings.ReplaceAll(tag, " ", "_")\<close>\<close>

definition ReplaceAll_space :: "string \<Rightarrow> string" where
  "ReplaceAll_space tag = map (\<lambda>c. if c = CHR '' '' then CHR ''_'' else c) tag"

text \<open>\<^verbatim>\<open>strings.Join(elems, " ")\<close>\<close>

fun Join_space :: "string list \<Rightarrow> string" where
  "Join_space [] = []"
| "Join_space [t] = t"
| "Join_space (t # u # ts) = t @ '' '' @ Join_space (u # ts)"

definition tagsStr :: "CardOptions option \<Rightarrow> string" where
  "tagsStr opts =
     (case opts of
        None \<Rightarrow> []
      | Some opt \<Rightarrow>
          if length (Tags opt) > 0 then '' '' @ Join_space (map ReplaceAll_space (Tags opt)) @ '' ''
          else [])"

text \<open>
  The row of \<^verbatim>\<open>notes\<close> that the first statement stores: the values it binds, \<^verbatim>\<open>sfld\<close>
  as the integer column keeps the string \<open>front\<close>.
\<close>

definition new_note :: "add_env \<Rightarrow> Deck \<Rightarrow> string \<Rightarrow> string \<Rightarrow> CardOptions option \<Rightarrow> note_row" where
  "new_note env d front back opts =
     (let noteGUID = getNoteGUID d (topDeckID d) front back
      in \<lparr>n_id = getNoteID d noteGUID (now env),
          n_guid = noteGUID,
          n_mid = topModelID d,
          n_mod = getID d ''notes'' ''mod'' (now env),
          n_usn = - 1,
          n_tags = tagsStr opts,
          n_flds = front @ separator @ back,
          n_sfld = integer_affinity front,
          n_csum = checksum d (front @ separator @ back),
          n_flags = 0,
          n_data = []\<rparr>)"

definition new_card :: "add_env \<Rightarrow> Deck \<Rightarrow> int \<Rightarrow> card_row" where
  "new_card env d noteID =
     \<lparr>c_id = getCardID d noteID (now env),
      c_nid = noteID,
      c_did = topDeckID d,
      c_ord = 0,
      c_mod = getID d ''cards'' ''mod'' (now env),
      c_usn = - 1,
      c_type = 0,
      c_queue = 0,
      c_due = 179,
      c_ivl = 0,
      c_factor = 0,
      c_reps = 0,
      c_lapses = 0,
      c_left = 0,
      c_odue = 0,
      c_odid = 0,
      c_flags = 0,
      c_data = []\<rparr>"

text \<open>
  The method returns an error and changes the deck in place; the model returns the error
  (\<open>None\<close> for \<^verbatim>\<open>nil\<close>) together with the deck as the call leaves it.
\<close>

definition AddCardWithOptions ::
    "add_env \<Rightarrow> Deck \<Rightarrow> string \<Rightarrow> string \<Rightarrow> CardOptions option \<Rightarrow> error option \<times> Deck" where
  "AddCardWithOptions env d front back opts =
     (let note = new_note env d front back opts
      in case noteFault env of
           Some msg \<Rightarrow> (Some (Wrapped ''failed to insert note'' (StoreError msg)), d)
         | None \<Rightarrow>
             (let d1 = d\<lparr>db := replace_note note (db d)\<rparr>;
                  card = new_card env d1 (n_id note)
              in case cardFault env of
                   Some msg \<Rightarrow> (Some (Wrapped ''failed to insert card'' (StoreError msg)), d1)
                 | None \<Rightarrow> (None, d1\<lparr>db := replace_card card (db d1)\<rparr>)))"

definition AddCard :: "add_env \<Rightarrow> Deck \<Rightarrow> string \<Rightarrow> string \<Rightarrow> error option \<times> Deck" where
  "AddCard env d front back = AddCardWithOptions env d front back None"

definition AddMedia :: "Deck \<Rightarrow> string \<Rightarrow> string \<Rightarrow> Deck" where
  "AddMedia d filename data = d\<lparr>media := media d @ [\<lparr>Filename = filename, Data = data\<rparr>]\<rparr>"

section \<open>The bootstrap script\<close>

definition nl :: string where
  "nl = [CHR 0x0A]"

definition bslash :: string where
  "bslash = [CHR 0x5C]"

definition dquote :: string where
  "dquote = [CHR 0x22]"

text \<open>The defaults that \<^verbatim>\<open>createTemplate\<close> fills in for a nil or empty option.\<close>

definition withDefaults :: "TemplateOptions option \<Rightarrow> TemplateOptions" where
  "withDefaults opts =
     (let t = (case opts of
                 None \<Rightarrow> \<lparr>QuestionFormat = [], AnswerFormat = [], CSS = []\<rparr>
               | Some t \<Rightarrow> t);
          t1 = (if QuestionFormat t = [] then t\<lparr>QuestionFormat := ''{{Front}}''\<rparr> else t);
          t2 = (if AnswerFormat t1 = []
                then t1\<lparr>AnswerFormat := ''{{FrontSide}}'' @ nl @ nl @ ''<hr id='' @ dquote @ ''answer''
                        @ dquote @ ''>'' @ nl @ nl @ ''{{Back}}''\<rparr>
                else t1)
      in if CSS t2 = []
         then t2\<lparr>CSS := ''.card {'' @ nl @ '' font-family: arial;'' @ nl @ '' font-size: 20px;'' @ nl
                @ '' text-align: center;'' @ nl @ '' color: black;'' @ nl
                @ ''background-color: white;'' @ nl @ ''}''\<rparr>
         else t2)"

definition seedField :: "string \<Rightarrow> int \<Rightarrow> json" where
  "seedField nm ord =
     JObj [(''name'', JStr nm), (''media'', JArr []), (''sticky'', JBool False),
           (''rtl'', JBool False), (''ord'', JNum ord), (''font'', JStr ''Arial''),
           (''size'', JNum 20)]"

text \<open>
  The entry of the models blob, with the three fields that \<^verbatim>\<open>updateModel\<close> rewrites as
  parameters; the seed has \<^verbatim>\<open>"name": "Basic-f15d2"\<close>, \<^verbatim>\<open>"did": 1435588830424\<close> and
  \<^verbatim>\<open>"id": 1388596687391\<close>.
\<close>

definition seedModel :: "string \<Rightarrow> int \<Rightarrow> int \<Rightarrow> TemplateOptions \<Rightarrow> json" where
  "seedModel nm did ident t =
     JObj [(''vers'', JArr []),
           (''name'', JStr nm),
           (''tags'', JArr [JStr ''Tag'']),
           (''did'', JNum did),
           (''usn'', JNum (- 1)),
           (''req'', JArr [JArr [JNum 0, JStr ''all'', JArr [JNum 0]]]),
           (''flds'', JArr [seedField ''Front'' 0, seedField ''Back'' 1]),
           (''sortf'', JNum 0),
           (''latexPre'', JStr (bslash @ ''documentclass[12pt]{article}'' @ nl
              @ bslash @ ''special{papersize=3in,5in}'' @ nl
              @ bslash @ ''usepackage[utf8]{inputenc}'' @ nl
              @ bslash @ ''usepackage{amssymb,amsmath}'' @ nl
              @ bslash @ ''pagestyle{empty}'' @ nl
              @ bslash @ ''setlength{'' @ bslash @ ''parindent}{0in}'' @ nl
              @ bslash @ ''begin{document}'' @ nl)),
           (''tmpls'', JArr [JObj [(''name'', JStr ''Card 1''),
                                   (''qfmt'', JStr (json_coerce (QuestionFormat t))),
                                   (''did'', JNull),
                                   (''bafmt'', JStr []),
                                   (''afmt'', JStr (json_coerce (AnswerFormat t))),
                                   (''ord'', JNum 0),
                                   (''bqfmt'', JStr [])]]),
           (''latexPost'', JStr (bslash @ ''end{document}'')),
           (''type'', JNum 0),
           (''id'', JNum ident),
           (''css'', JStr (json_coerce (CSS t))),
           (''mod'', JNum 1435645658)]"

definition seedModels :: "TemplateOptions \<Rightarrow> json" where
  "seedModels t =
     JObj [(''1388596687391'', seedModel ''Basic-f15d2'' 1435588830424 1388596687391 t)]"

text \<open>
  An entry of the decks blob; the two seed entries differ in the name, the usn, the first
  number of the four \<^verbatim>\<open>...Today\<close> pairs, the id and the modification time.
\<close>

definition seedDeck :: "string \<Rightarrow> int \<Rightarrow> int \<Rightarrow> int \<Rightarrow> int \<Rightarrow> json" where
  "seedDeck nm usn today ident modified =
     JObj [(''desc'', JStr []),
           (''name'', JStr nm),
           (''extendRev'', JNum 50),
           (''usn'', JNum usn),
           (''collapsed'', JBool False),
           (''newToday'', JArr [JNum today, JNum 0]),
           (''timeToday'', JArr [JNum today, JNum 0]),
           (''dyn'', JNum 0),
           (''extendNew'', JNum 10),
           (''conf'', JNum 1),
           (''revToday'', JArr [JNum today, JNum 0]),
           (''lrnToday'', JArr [JNum today, JNum 0]),
           (''id'', JNum ident),
           (''mod'', JNum modified)]"

definition seedDecks :: json where
  "seedDecks =
     JObj [(''1'', seedDeck ''Default'' 0 0 1 1435645724),
           (''1435588830424'', seedDeck ''Template'' (- 1) 545 1435588830424 1435588830)]"

text \<open>
  \<^verbatim>\<open>createTemplate\<close> returns the text of a script; it is modelled by the store that the
  script builds when it runs: the \<^verbatim>\<open>col\<close> row with the seed blobs, and the empty tables
  \<^verbatim>\<open>notes\<close> and \<^verbatim>\<open>cards\<close>.
\<close>

definition createTemplate :: "TemplateOptions option \<Rightarrow> database" where
  "createTemplate opts =
     \<lparr>col_decks = seedDecks, col_models = seedModels (withDefaults opts),
      notes_tbl = [], cards_tbl = []\<rparr>"

section \<open>Creating a deck\<close>

text \<open>
  What \<^verbatim>\<open>NewDeckWithTemplate\<close> reads from outside: the clock; whether the store reports
  an error when it is opened, when the script runs and at each \<^verbatim>\<open>UPDATE col\<close>; and the
  order in which \<^verbatim>\<open>for k := range m\<close> visits the keys of the two maps, which Go leaves
  unspecified (an order is a permutation of the keys, see \<open>range_order\<close>).
\<close>

record init_env =
  init_now :: int
  openFault :: "string option"
  templateFault :: "string option"
  decksUpdateFault :: "string option"
  modelsUpdateFault :: "string option"
  decksOrder :: "string list"
  modelsOrder :: "string list"

definition range_order :: "string list \<Rightarrow> json \<Rightarrow> bool" where
  "range_order order j =
     (case j of JObj kvs \<Rightarrow> distinct order \<and> set order = set (map fst kvs) | _ \<Rightarrow> order = [])"

text \<open>\<^verbatim>\<open>var lastKey string; for k := range m { lastKey = k }\<close>\<close>

definition rangeLast :: "string list \<Rightarrow> string" where
  "rangeLast order = fold (\<lambda>k lastKey. k) order []"

text \<open>
  The conversion \<^verbatim>\<open>float64(x)\<close> of an int64, as the integer the result denotes: \<open>x\<close>
  itself up to 53 bits, beyond that the nearest multiple of the unit in the last place
  (ties to even).
\<close>

fun bitlen :: "nat \<Rightarrow> nat" where
  "bitlen n = (if n = 0 then 0 else Suc (bitlen (n div 2)))"

declare bitlen.simps [simp del]

definition float64 :: "int \<Rightarrow> int" where
  "float64 x =
     (let m = nat \<bar>x\<bar>; e = bitlen m - 53; q = m div 2 ^ e; r = m mod 2 ^ e;
          q' = (if 2 * r > 2 ^ e \<or> (2 * r = 2 ^ e \<and> odd q) then q + 1 else q)
      in sgn x * int (q' * 2 ^ e))"

text \<open>
  In \<^verbatim>\<open>updateDeckName\<close> and \<^verbatim>\<open>updateModel\<close> the blob is read, changed and written back;
  \<^verbatim>\<open>json.Marshal\<close> coerces the name of the deck as it writes it.
  A blob that is neither an object nor \<^verbatim>\<open>null\<close> fails in \<^verbatim>\<open>json.Unmarshal\<close>; for
  \<^verbatim>\<open>null\<close> the map stays nil, the loop visits nothing and \<^verbatim>\<open>null\<close> is written back; an
  entry that is not an object makes the type assertion panic.
\<close>

definition updateDeckName :: "init_env \<Rightarrow> Deck \<Rightarrow> error + Deck" where
  "updateDeckName env d =
     (case col_decks (db d) of
        JObj decks \<Rightarrow>
          (let lastKey = rangeLast (decksOrder env)
           in case (if lastKey \<noteq> [] \<and> lastKey \<noteq> ''1'' then
                      (case map_of decks lastKey of
                         Some (JObj deck) \<Rightarrow>
                           Inr (AList.update (FormatInt (topDeckID d))
                                  (JObj (AList.update ''id'' (JNum (float64 (topDeckID d)))
                                          (AList.update ''name'' (JStr (json_coerce (name d))) deck)))
                                  (AList.delete lastKey decks))
                       | _ \<Rightarrow> Inl (Panic ''interface conversion''))
                    else Inr decks) of
                Inl e \<Rightarrow> Inl e
              | Inr decks' \<Rightarrow>
                  (case decksUpdateFault env of
                     Some msg \<Rightarrow> Inl (StoreError msg)
                   | None \<Rightarrow> Inr (d\<lparr>db := (db d)\<lparr>col_decks := JObj decks'\<rparr>\<rparr>)))
      | JNull \<Rightarrow>
          (case decksUpdateFault env of Some msg \<Rightarrow> Inl (StoreError msg) | None \<Rightarrow> Inr d)
      | _ \<Rightarrow> Inl UnmarshalTypeError)"

definition updateModel :: "init_env \<Rightarrow> Deck \<Rightarrow> error + Deck" where
  "updateModel env d =
     (case col_models (db d) of
        JObj models \<Rightarrow>
          (let lastKey = rangeLast (modelsOrder env)
           in case (if lastKey \<noteq> [] then
                      (case map_of models lastKey of
                         Some (JObj model) \<Rightarrow>
                           Inr (AList.update (FormatInt (topModelID d))
                                  (JObj (AList.update ''id'' (JNum (float64 (topModelID d)))
                                          (AList.update ''did'' (JNum (float64 (topDeckID d)))
                                            (AList.update ''name'' (JStr (json_coerce (name d))) model))))
                                  (AList.delete lastKey models))
                       | _ \<Rightarrow> Inl (Panic ''interface conversion''))
                    else Inr models) of
                Inl e \<Rightarrow> Inl e
              | Inr models' \<Rightarrow>
                  (case modelsUpdateFault env of
                     Some msg \<Rightarrow> Inl (StoreError msg)
                   | None \<Rightarrow> Inr (d\<lparr>db := (db d)\<lparr>col_models := JObj models'\<rparr>\<rparr>)))
      | JNull \<Rightarrow>
          (case modelsUpdateFault env of Some msg \<Rightarrow> Inl (StoreError msg) | None \<Rightarrow> Inr d)
      | _ \<Rightarrow> Inl UnmarshalTypeError)"

definition initializeDatabase :: "init_env \<Rightarrow> TemplateOptions option \<Rightarrow> Deck \<Rightarrow> error + Deck" where
  "initializeDatabase env templateOpts d =
     (case templateFault env of
        Some msg \<Rightarrow> Inl (Wrapped ''failed to execute template'' (StoreError msg))
      | None \<Rightarrow>
          (let d0 = d\<lparr>db := createTemplate templateOpts\<rparr>;
               d1 = d0\<lparr>topDeckID := getID d0 ''cards'' ''did'' (init_now env)\<rparr>;
               d2 = d1\<lparr>topModelID := getID d1 ''notes'' ''mid'' (init_now env)\<rparr>
           in case updateDeckName env d2 of
                Inl e \<Rightarrow> Inl (Wrapped ''failed to update deck name'' e)
              | Inr d3 \<Rightarrow>
                  (case updateModel env d3 of
                     Inl e \<Rightarrow> Inl (Wrapped ''failed to update model'' e)
                   | Inr d4 \<Rightarrow> Inr d4)))"

text \<open>
  Before the script has run the store has no table; the deck is given the empty store,
  which the script replaces.
\<close>

definition NewDeckWithTemplate :: "init_env \<Rightarrow> string \<Rightarrow> TemplateOptions option \<Rightarrow> error + Deck" where
  "NewDeckWithTemplate env nm templateOpts =
     (case openFault env of
        Some msg \<Rightarrow> Inl (Wrapped ''failed to open database'' (StoreError msg))
      | None \<Rightarrow>
          (let deck = \<lparr>name = nm,
                       db = \<lparr>col_decks = JNull, col_models = JNull, notes_tbl = [], cards_tbl = []\<rparr>,
                       media = [], topDeckID = 0, topModelID = 0\<rparr>
           in case initializeDatabase env templateOpts deck of
                Inl e \<Rightarrow> Inl (Wrapped ''failed to initialize database'' e)
              | Inr d \<Rightarrow> Inr d))"

definition NewDeck :: "init_env \<Rightarrow> string \<Rightarrow> error + Deck" where
  "NewDeck env nm = NewDeckWithTemplate env nm None"

section \<open>Exporting the archive\<close>

text \<open>
  A zip archive is modelled by its entries in the order they are written, each a name and
  its content. The content of the entry \<^verbatim>\<open>media\<close> is the text \<^verbatim>\<open>json.Marshal\<close> gives
  for the manifest map; it is kept as the object that text denotes, a map from keys to
  strings (the order of the keys in the text is not part of it).
\<close>

datatype zip_data = Raw string | Manifest "string \<Rightarrow> string option"

type_synonym zip_archive = "(string \<times> zip_data) list"

text \<open>
  \<^verbatim>\<open>mediaMap := make(map[string]string); for i, m := range d.media
  { mediaMap[strconv.Itoa(i)] = m.Filename }\<close>
\<close>

definition manifest_put :: "nat \<times> Media \<Rightarrow> (string \<Rightarrow> string option) \<Rightarrow> (string \<Rightarrow> string option)" where
  "manifest_put im mp = mp(Itoa (fst im) \<mapsto> Filename (snd im))"

definition mediaMap :: "Media list \<Rightarrow> (string \<Rightarrow> string option)" where
  "mediaMap ms = fold manifest_put (enumerate 0 ms) Map.empty"

text \<open>
  The object that the text of \<^verbatim>\<open>json.Marshal(mediaMap)\<close> denotes: keys and values coerced
  to valid UTF-8 (the keys are decimal digits, which the coercion leaves as they are).
\<close>

definition json_Marshal_map :: "(string \<Rightarrow> string option) \<Rightarrow> (string \<Rightarrow> string option)" where
  "json_Marshal_map mp = (\<lambda>k. map_option json_coerce (mp k))"

text \<open>
  \<^verbatim>\<open>exportDatabase\<close> copies the store into a temporary SQLite file and reads the file
  back; \<open>exported\<close> is what that step gives, the bytes of the file or its error. Writing
  to a zip writer over a \<^verbatim>\<open>bytes.Buffer\<close> does not fail for these names.
\<close>

definition Save :: "error + string \<Rightarrow> Deck \<Rightarrow> error + zip_archive" where
  "Save exported d =
     (case exported of
        Inl e \<Rightarrow> Inl (Wrapped ''failed to export database'' e)
      | Inr dbData \<Rightarrow>
          Inr ([(''collection.anki2'', Raw dbData),
                (''media'', Manifest (json_Marshal_map (mediaMap (media d))))]
               @ map (\<lambda>(i, m). (Itoa i, Raw (Data m))) (enumerate 0 (media d))))"

section \<open>Media helpers\<close>

text \<open>
  Modelled from the spec: \<^verbatim>\<open>AddAudio\<close>, \<^verbatim>\<open>AddImage\<close> and \<^verbatim>\<open>AddVideo\<close> are called
  by the tests and the examples, but the version of anki.go at hand does not define them.
  By the specification each registers the media file, as \<^verbatim>\<open>AddMedia\<close> does, and
  returns the markup that refers to it.
\<close>

definition AddAudio :: "Deck \<Rightarrow> string \<Rightarrow> string \<Rightarrow> string \<times> Deck" where
  "AddAudio d filename data = (''[sound:'' @ filename @ '']'', AddMedia d filename data)"

definition AddImage :: "Deck \<Rightarrow> string \<Rightarrow> string \<Rightarrow> string \<times> Deck" where
  "AddImage d filename data = (''<img src='' @ dquote @ filename @ dquote @ ''>'', AddMedia d filename data)"

definition AddVideo :: "Deck \<Rightarrow> string \<Rightarrow> string \<Rightarrow> string \<times> Deck" where
  "AddVideo d filename data =
     (''<video controls><source src='' @ dquote @ filename @ dquote @ ''></video>'',
      AddMedia d filename data)"

section \<open>Decks that the operations can build\<close>

text \<open>
  A deck is built by \<^verbatim>\<open>NewDeckWithTemplate\<close> and changed by adding cards and media.
  \<^verbatim>\<open>PullFromAnki\<close> also deletes the cards of the deck and all notes before it adds cards.
\<close>

inductive reachable :: "Deck \<Rightarrow> bool" where
  created: "NewDeckWithTemplate env nm opts = Inr d \<Longrightarrow> reachable d"
| added: "reachable d \<Longrightarrow> AddCardWithOptions aenv d front back copts = (r, d') \<Longrightarrow> reachable d'"
| registered: "reachable d \<Longrightarrow> reachable (AddMedia d filename data)"
| cards_deleted:
    "reachable d \<Longrightarrow>
     reachable (d\<lparr>db := (db d)\<lparr>cards_tbl := filter (\<lambda>c. c_did c \<noteq> topDeckID d) (cards_tbl (db d))\<rparr>\<rparr>)"
| notes_deleted: "reachable d \<Longrightarrow> reachable (d\<lparr>db := (db d)\<lparr>notes_tbl := []\<rparr>\<rparr>)"

text \<open>
  The invariant of the store: \<^verbatim>\<open>id\<close> is the primary key of both tables, no two notes
  share a guid, and no two cards belong to the same note.
\<close>

definition wf_store :: "database \<Rightarrow> bool" where
  "wf_store s =
     (distinct (map n_id (notes_tbl s)) \<and> distinct (map n_guid (notes_tbl s)) \<and>
      distinct (map c_id (cards_tbl s)) \<and> distinct (map c_nid (cards_tbl s)))"

section \<open>Vocabulary of the statements\<close>

text \<open>The number that a byte sequence denotes when read big-endian.\<close>

definition be_nat :: "string \<Rightarrow> nat" where
  "be_nat bs = fold (\<lambda>b acc. 256 * acc + of_char b) bs 0"

text \<open>
  The deck as \<^verbatim>\<open>AddCardWithOptions\<close> leaves it after its first statement has run, and
  after both have run.
\<close>

definition after_note :: "add_env \<Rightarrow> Deck \<Rightarrow> string \<Rightarrow> string \<Rightarrow> CardOptions option \<Rightarrow> Deck" where
  "after_note env d front back opts = d\<lparr>db := replace_note (new_note env d front back opts) (db d)\<rparr>"

definition after_card :: "add_env \<Rightarrow> Deck \<Rightarrow> string \<Rightarrow> string \<Rightarrow> CardOptions option \<Rightarrow> Deck" where
  "after_card env d front back opts =
     (let d1 = after_note env d front back opts
      in d1\<lparr>db := replace_card (new_card env d1 (n_id (new_note env d front back opts))) (db d1)\<rparr>)"

text \<open>
  The deck that a construction at time \<open>ts\<close> gives when the loop over the decks ends on
  the seed deck \<^verbatim>\<open>"1435588830424"\<close>: both seed entries renamed to \<open>ts\<close>.
\<close>

definition renamed_deck :: "string \<Rightarrow> int \<Rightarrow> TemplateOptions option \<Rightarrow> Deck" where
  "renamed_deck nm ts topts =
     \<lparr>name = nm,
      db = \<lparr>col_decks = JObj [(''1'', seedDeck ''Default'' 0 0 1 1435645724),
                               (FormatInt ts, seedDeck (json_coerce nm) (- 1) 545 ts 1435588830)],
             col_models = JObj [(FormatInt ts, seedModel (json_coerce nm) ts ts (withDefaults topts))],
             notes_tbl = [], cards_tbl = []\<rparr>,
      media = [], topDeckID = ts, topModelID = ts\<rparr>"

text \<open>
  The deck that the same construction gives when the loop ends on \<^verbatim>\<open>"1"\<close>: the decks
  blob is the seed.
\<close>

definition unrenamed_deck :: "string \<Rightarrow> int \<Rightarrow> TemplateOptions option \<Rightarrow> Deck" where
  "unrenamed_deck nm ts topts =
     \<lparr>name = nm,
      db = \<lparr>col_decks = seedDecks,
             col_models = JObj [(FormatInt ts, seedModel (json_coerce nm) ts ts (withDefaults topts))],
             notes_tbl = [], cards_tbl = []\<rparr>,
      media = [], topDeckID = ts, topModelID = ts\<rparr>"

text \<open>Two runs of a construction, which differ in the order of the loop over the decks.\<close>

definition init_last_seed :: init_env where
  "init_last_seed =
     \<lparr>init_now = 1700000000000, openFault = None, templateFault = None,
      decksUpdateFault = None, modelsUpdateFault = None,
      decksOrder = [''1'', ''1435588830424''], modelsOrder = [''1388596687391'']\<rparr>"

definition init_last_default :: init_env where
  "init_last_default =
     \<lparr>init_now = 1700000000000, openFault = None, templateFault = None,
      decksUpdateFault = None, modelsUpdateFault = None,
      decksOrder = [''1435588830424'', ''1''], modelsOrder = [''1388596687391'']\<rparr>"

text \<open>A call in which the store runs both statements.\<close>

definition env_ok :: add_env where
  "env_ok = \<lparr>now = 1700000000005, noteFault = None, cardFault = None\<rparr>"

text \<open>The deck of the tests: \<^verbatim>\<open>NewDeck("Test Deck")\<close> at the clock reading above.\<close>

definition test_deck :: Deck where
  "test_deck = renamed_deck ''Test Deck'' 1700000000000 None"

text \<open>A call whose second statement the store rejects.\<close>

definition env_card_fault :: add_env where
  "env_card_fault = \<lparr>now = 1700000000009, noteFault = None, cardFault = Some ''database is locked''\<rparr>"

text \<open>The entry of a JSON object under a key.\<close>

definition lookup :: "json \<Rightarrow> string \<Rightarrow> json option" where
  "lookup j k = (case j of JObj kvs \<Rightarrow> map_of kvs k | _ \<Rightarrow> None)"

text \<open>
  The tag string as the specification words it: every whitespace character of a tag
  becomes an underscore. (The code replaces the space character only.)
\<close>

definition is_whitespace :: "char \<Rightarrow> bool" where
  "is_whitespace c = (c \<in> set [CHR 0x09, CHR 0x0A, CHR 0x0B, CHR 0x0C, CHR 0x0D, CHR 0x20])"

definition spec_tagsStr :: "string list \<Rightarrow> string" where
  "spec_tagsStr tags =
     (if tags = [] then []
      else '' '' @ Join_space (map (map (\<lambda>c. if is_whitespace c then CHR ''_'' else c)) tags) @ '' '')"

text \<open>The entry of the manifest of an archive under a key.\<close>

definition manifest_entry :: "zip_archive \<Rightarrow> string \<Rightarrow> string option" where
  "manifest_entry z k = (case map_of z ''media'' of Some (Manifest mf) \<Rightarrow> mf k | _ \<Rightarrow> None)"

text \<open>A file name in Latin-1, whose byte E9 is not valid UTF-8.\<close>

definition latin1_name :: string where
  "latin1_name = ''caf'' @ [CHR 0xE9] @ ''.png''"

section \<open>Hexadecimal text and the checksum\<close>

lemma length_putUint32: "length (putUint32 x) = 4"
  by (simp add: putUint32_def)

lemma length_sha1_Sum: "length (sha1_Sum msg) = 20"
  by (simp add: sha1_Sum_def length_putUint32 split: prod.splits)

lemma length_hex: "length (hex bs) = 2 * length bs"
  by (induction bs) (simp_all add: hex_def)

lemma hex_Cons: "hex (b # bs) = hexdigit (of_char b div 16) # hexdigit (of_char b mod 16) # hex bs"
  by (simp add: hex_def)

lemma hex_Nil: "hex [] = []"
  by (simp add: hex_def)

lemma take_hex: "take (2 * n) (hex bs) = hex (take n bs)"
proof (induction bs arbitrary: n)
  case Nil
  show ?case by (simp add: hex_Nil)
next
  case (Cons b bs)
  show ?case
  proof (cases n)
    case 0
    then show ?thesis by (simp add: hex_Nil)
  next
    case (Suc m)
    then show ?thesis using Cons [of m] by (simp add: hex_Cons)
  qed
qed

lemma hexval_hexdigit: "k < 16 \<Longrightarrow> hexval (hexdigit k) = Some k"
proof -
  assume "k < 16"
  then have "k \<in> {0, 1, 2, 3, 4, 5, 6, 7, 8, 9, 10, 11, 12, 13, 14, 15}" by simp arith
  then show ?thesis by (auto simp add: hexval_def hexdigit_def Let_def)
qed

lemma of_char_lt: "(of_char c :: nat) < 256"
  by (rule nat_of_char_less_256)

lemma hexnum_hex: "hexnum acc (hex bs) = Some (fold (\<lambda>b a. 256 * a + of_char b) bs acc)"
proof (induction bs arbitrary: acc)
  case Nil
  show ?case by (simp add: hex_Nil)
next
  case (Cons b bs)
  have d: "(of_char b :: nat) div 16 < 16" using of_char_lt [of b] by (simp add: less_mult_imp_div_less)
  have m: "(of_char b :: nat) mod 16 < 16" by simp
  have e: "16 * (16 * acc + of_char b div 16) + of_char b mod 16 = 256 * acc + (of_char b :: nat)"
    by simp
  show ?case
    by (simp only: hex_Cons hexnum.simps hexval_hexdigit [OF d] hexval_hexdigit [OF m]
          option.case Cons e fold_simps)
qed

lemma fold_be_bound: "fold (\<lambda>b a. 256 * a + of_char b) bs (acc::nat) < (acc + 1) * 256 ^ length bs"
proof (induction bs arbitrary: acc)
  case Nil
  show ?case by (simp del: nat_of_char_less_256)
next
  case (Cons b bs)
  have "fold (\<lambda>b a. 256 * a + of_char b) bs (256 * acc + of_char b)
          < (256 * acc + of_char b + 1) * 256 ^ length bs"
    by (rule Cons)
  also have "\<dots> \<le> (256 * acc + 256) * 256 ^ length bs"
  proof (intro mult_right_mono)
    show "256 * acc + of_char b + 1 \<le> 256 * acc + 256"
      using nat_of_char_less_256 [of b] by linarith
  qed simp
  finally show ?case by (simp add: algebra_simps)
qed

lemma be_nat_bound: "be_nat bs < 256 ^ length bs"
  using fold_be_bound [of bs 0] by (simp add: be_nat_def)

lemma hexdigit_not_sign: "k < 16 \<Longrightarrow> hexdigit k \<noteq> CHR ''-'' \<and> hexdigit k \<noteq> CHR ''+''"
  using hexval_hexdigit [of k] by (auto simp add: hexval_def Let_def)

lemma ParseInt16_hex4:
  assumes "length bs = 4"
  shows "ParseInt16 (hex bs) = (int (be_nat bs), None)"
proof -
  from assms obtain b bs' where bs: "bs = b # bs'" by (cases bs) auto
  have d: "(of_char b :: nat) div 16 < 16"
    using of_char_lt [of b] by (simp add: less_mult_imp_div_less)
  have ne: "hex bs \<noteq> []" and h: "hd (hex bs) = hexdigit (of_char b div 16)"
    by (simp_all add: bs hex_Cons)
  have v: "be_nat bs < 2 ^ 63"
  proof -
    have "be_nat bs < 256 ^ 4" using be_nat_bound [of bs] assms by simp
    also have "\<dots> \<le> (2::nat) ^ 63" by simp
    finally show ?thesis .
  qed
  show ?thesis
    using ne h hexdigit_not_sign [OF d] v
    by (simp add: ParseInt16_def Let_def hexnum_hex be_nat_def)
qed

lemma checksum_eq: "checksum d str = int (be_nat (take 4 (sha1_Sum str)))"
proof -
  have "take 8 (hex (sha1_Sum str)) = hex (take 4 (sha1_Sum str))"
    using take_hex [of 4 "sha1_Sum str"] by simp
  then show ?thesis
    by (simp add: checksum_def ParseInt16_hex4 length_sha1_Sum)
qed

lemma checksum_range: "0 \<le> checksum d str \<and> checksum d str < 2 ^ 32"
proof -
  have "be_nat (take 4 (sha1_Sum str)) < 256 ^ 4"
    using be_nat_bound [of "take 4 (sha1_Sum str)"] by (simp add: length_sha1_Sum)
  then show ?thesis by (simp add: checksum_eq)
qed

section \<open>The two statements of \<^verbatim>\<open>AddCardWithOptions\<close>\<close>

lemma AddCardWithOptions_cases:
  "AddCardWithOptions env d front back opts =
     (case noteFault env of
        Some msg \<Rightarrow> (Some (Wrapped ''failed to insert note'' (StoreError msg)), d)
      | None \<Rightarrow>
          (case cardFault env of
             Some msg \<Rightarrow> (Some (Wrapped ''failed to insert card'' (StoreError msg)),
                           after_note env d front back opts)
           | None \<Rightarrow> (None, after_card env d front back opts)))"
  by (simp add: AddCardWithOptions_def after_note_def after_card_def Let_def split: option.splits)

lemma AddCardWithOptions_None:
  "AddCardWithOptions env d front back opts = (None, d') \<Longrightarrow>
     noteFault env = None \<and> cardFault env = None \<and> d' = after_card env d front back opts"
  by (auto simp add: AddCardWithOptions_cases split: option.splits)

lemma notes_after_card:
  "notes_tbl (db (after_card env d front back opts)) =
     filter (\<lambda>x. n_id x \<noteq> n_id (new_note env d front back opts)) (notes_tbl (db d))
       @ [new_note env d front back opts]"
  by (simp add: after_card_def after_note_def replace_note_def replace_card_def Let_def)

lemma notes_after_note:
  "notes_tbl (db (after_note env d front back opts)) =
     filter (\<lambda>x. n_id x \<noteq> n_id (new_note env d front back opts)) (notes_tbl (db d))
       @ [new_note env d front back opts]"
  by (simp add: after_note_def replace_note_def)

lemma cards_after_note:
  "cards_tbl (db (after_note env d front back opts)) = cards_tbl (db d)"
  by (simp add: after_note_def replace_note_def)

lemma cards_after_card:
  "cards_tbl (db (after_card env d front back opts)) =
     filter (\<lambda>x. c_id x \<noteq> c_id (new_card env (after_note env d front back opts)
                                     (n_id (new_note env d front back opts))))
            (cards_tbl (db d))
       @ [new_card env (after_note env d front back opts) (n_id (new_note env d front back opts))]"
  by (simp add: after_card_def after_note_def replace_note_def replace_card_def Let_def)

lemma top_after [simp]:
  "topDeckID (after_note env d front back opts) = topDeckID d"
  "topModelID (after_note env d front back opts) = topModelID d"
  "topDeckID (after_card env d front back opts) = topDeckID d"
  "topModelID (after_card env d front back opts) = topModelID d"
  "media (after_note env d front back opts) = media d"
  "media (after_card env d front back opts) = media d"
  "name (after_note env d front back opts) = name d"
  "name (after_card env d front back opts) = name d"
  by (simp_all add: after_card_def after_note_def Let_def)


section \<open>The invariant of the store\<close>

lemma filter_distinct_key:
  "distinct (map f xs) \<Longrightarrow> x \<in> set xs \<Longrightarrow> filter (\<lambda>y. f y = f x) xs = [x]"
proof (induction xs)
  case Nil
  then show ?case by simp
next
  case (Cons a xs)
  show ?case
  proof (cases "a = x")
    case True
    with Cons.prems have "f x \<notin> f ` set xs" by simp
    then have "\<forall>y\<in>set xs. f y \<noteq> f x" by (metis imageI)
    then have "filter (\<lambda>y. f y = f x) xs = []" by (simp add: filter_empty_conv)
    with True show ?thesis by simp
  next
    case False
    with Cons.prems have x: "x \<in> set xs" and a: "f a \<notin> f ` set xs" by simp_all
    from x a have "f a \<noteq> f x" by auto
    with Cons.IH Cons.prems x show ?thesis by simp
  qed
qed


lemma getNoteID_existing:
  assumes "distinct (map n_guid (notes_tbl (db d)))" and "x \<in> set (notes_tbl (db d))"
  shows "getNoteID d (n_guid x) ts = n_id x"
  using filter_distinct_key [OF assms] by (simp add: getNoteID_def)

lemma getCardID_existing:
  assumes "distinct (map c_nid (cards_tbl (db d)))" and "x \<in> set (cards_tbl (db d))"
  shows "getCardID d (c_nid x) ts = c_id x"
  using filter_distinct_key [OF assms] by (simp add: getCardID_def)

lemma distinct_replace:
  assumes "distinct (map k xs)"
  shows "distinct (map k (filter (\<lambda>x. k x \<noteq> k r) xs @ [r]))"
  using assms by (auto simp add: distinct_map_filter)

lemma n_id_new_note:
  "n_id (new_note env d front back opts) = getNoteID d (getNoteGUID d (topDeckID d) front back) (now env)"
  and n_guid_new_note:
  "n_guid (new_note env d front back opts) = getNoteGUID d (topDeckID d) front back"
  by (simp_all add: new_note_def Let_def)

lemma wf_after_note:
  assumes "wf_store (db d)"
  shows "wf_store (db (after_note env d front back opts))"
proof -
  let ?N = "new_note env d front back opts"
  let ?xs = "notes_tbl (db d)"
  from assms have di: "distinct (map n_id ?xs)" and dg: "distinct (map n_guid ?xs)"
    and dc: "distinct (map c_id (cards_tbl (db d)))" and dn: "distinct (map c_nid (cards_tbl (db d)))"
    by (simp_all add: wf_store_def)
  have fresh: "n_guid y \<noteq> n_guid ?N" if y: "y \<in> set ?xs" and ny: "n_id y \<noteq> n_id ?N" for y
  proof
    assume e: "n_guid y = n_guid ?N"
    have "getNoteID d (n_guid y) (now env) = n_id y" by (rule getNoteID_existing [OF dg y])
    with e have "n_id ?N = n_id y" by (simp add: n_id_new_note n_guid_new_note)
    with ny show False by simp
  qed
  have "n_guid ?N \<notin> n_guid ` set (filter (\<lambda>x. n_id x \<noteq> n_id ?N) ?xs)"
    using fresh by force
  then have "distinct (map n_guid (filter (\<lambda>x. n_id x \<noteq> n_id ?N) ?xs @ [?N]))"
    using distinct_map_filter [OF dg] by simp
  moreover have "distinct (map n_id (filter (\<lambda>x. n_id x \<noteq> n_id ?N) ?xs @ [?N]))"
    by (rule distinct_replace [OF di])
  ultimately show ?thesis
    using dc dn by (simp add: wf_store_def notes_after_note cards_after_note)
qed

lemma wf_replace_card:
  assumes "wf_store (db d)"
  shows "wf_store (replace_card (new_card env d n) (db d))"
proof -
  let ?C = "new_card env d n"
  let ?xs = "cards_tbl (db d)"
  from assms have di: "distinct (map n_id (notes_tbl (db d)))" and dg: "distinct (map n_guid (notes_tbl (db d)))"
    and dc: "distinct (map c_id ?xs)" and dn: "distinct (map c_nid ?xs)"
    by (simp_all add: wf_store_def)
  have idC: "c_id ?C = getCardID d n (now env)" and nidC: "c_nid ?C = n"
    by (simp_all add: new_card_def)
  have fresh: "c_nid y \<noteq> c_nid ?C" if y: "y \<in> set ?xs" and ny: "c_id y \<noteq> c_id ?C" for y
  proof
    assume e: "c_nid y = c_nid ?C"
    have "getCardID d (c_nid y) (now env) = c_id y" by (rule getCardID_existing [OF dn y])
    with e have "c_id ?C = c_id y" by (simp add: idC nidC)
    with ny show False by simp
  qed
  have "c_nid ?C \<notin> c_nid ` set (filter (\<lambda>x. c_id x \<noteq> c_id ?C) ?xs)"
    using fresh by force
  then have "distinct (map c_nid (filter (\<lambda>x. c_id x \<noteq> c_id ?C) ?xs @ [?C]))"
    using distinct_map_filter [OF dn] by simp
  moreover have "distinct (map c_id (filter (\<lambda>x. c_id x \<noteq> c_id ?C) ?xs @ [?C]))"
    by (rule distinct_replace [OF dc])
  ultimately show ?thesis
    using di dg by (simp add: wf_store_def replace_card_def)
qed

lemma wf_after_card:
  assumes "wf_store (db d)"
  shows "wf_store (db (after_card env d front back opts))"
  using wf_replace_card [OF wf_after_note [OF assms]]
  by (simp add: after_card_def Let_def)

lemma wf_AddCardWithOptions:
  assumes "wf_store (db d)" and "AddCardWithOptions env d front back opts = (r, d')"
  shows "wf_store (db d')"
  using assms wf_after_note [OF assms(1)] wf_after_card [OF assms(1)]
  by (auto simp add: AddCardWithOptions_cases split: option.splits)

lemma updateDeckName_frame:
  assumes "updateDeckName env d = Inr d'"
  shows "notes_tbl (db d') = notes_tbl (db d) \<and> cards_tbl (db d') = cards_tbl (db d) \<and>
         col_models (db d') = col_models (db d) \<and>
         topDeckID d' = topDeckID d \<and> topModelID d' = topModelID d \<and>
         name d' = name d \<and> media d' = media d"
  using assms
  by (auto simp add: updateDeckName_def Let_def split: json.splits sum.splits option.splits if_splits)

lemma updateModel_frame:
  assumes "updateModel env d = Inr d'"
  shows "notes_tbl (db d') = notes_tbl (db d) \<and> cards_tbl (db d') = cards_tbl (db d) \<and>
         col_decks (db d') = col_decks (db d) \<and>
         topDeckID d' = topDeckID d \<and> topModelID d' = topModelID d \<and>
         name d' = name d \<and> media d' = media d"
  using assms
  by (auto simp add: updateModel_def Let_def split: json.splits sum.splits option.splits if_splits)

lemma getID_empty:
  "cards_tbl (db d) = [] \<Longrightarrow> getID d ''cards'' col ts = ts"
  "notes_tbl (db d) = [] \<Longrightarrow> getID d ''notes'' col ts = ts"
  by (simp_all add: getID_def column_def)

lemma initializeDatabase_Inr:
  assumes "initializeDatabase env opts d = Inr d'"
  shows "notes_tbl (db d') = [] \<and> cards_tbl (db d') = [] \<and>
         topDeckID d' = init_now env \<and> topModelID d' = init_now env \<and>
         name d' = name d \<and> media d' = media d"
proof -
  let ?d0 = "d\<lparr>db := createTemplate opts\<rparr>"
  let ?d1 = "?d0\<lparr>topDeckID := getID ?d0 ''cards'' ''did'' (init_now env)\<rparr>"
  let ?d2 = "?d1\<lparr>topModelID := getID ?d1 ''notes'' ''mid'' (init_now env)\<rparr>"
  have g1: "getID ?d0 ''cards'' ''did'' (init_now env) = init_now env"
    by (rule getID_empty) (simp add: createTemplate_def)
  have g2: "getID ?d1 ''notes'' ''mid'' (init_now env) = init_now env"
    by (rule getID_empty) (simp add: createTemplate_def)
  from assms obtain d3 where u1: "updateDeckName env ?d2 = Inr d3" and u2: "updateModel env d3 = Inr d'"
    by (auto simp add: initializeDatabase_def Let_def split: option.splits sum.splits)
  from updateDeckName_frame [OF u1] updateModel_frame [OF u2] g1 g2
  show ?thesis by (simp add: createTemplate_def)
qed

lemma NewDeckWithTemplate_Inr:
  assumes "NewDeckWithTemplate env nm opts = Inr d"
  shows "notes_tbl (db d) = [] \<and> cards_tbl (db d) = [] \<and>
         topDeckID d = init_now env \<and> topModelID d = init_now env \<and>
         name d = nm \<and> media d = []"
proof -
  from assms obtain d0 where i: "initializeDatabase env opts d0 = Inr d"
      and n: "name d0 = nm" and m: "media d0 = []"
    by (auto simp add: NewDeckWithTemplate_def Let_def split: option.splits sum.splits)
  from initializeDatabase_Inr [OF i] n m show ?thesis by simp
qed

lemma reachable_wf: "reachable d \<Longrightarrow> wf_store (db d)"
proof (induction rule: reachable.induct)
  case (created e n t d)
  from NewDeckWithTemplate_Inr [OF created] show ?case by (simp add: wf_store_def)
next
  case (added d e f b t r d')
  then show ?case using wf_AddCardWithOptions by blast
next
  case (registered d f x)
  then show ?case by (simp add: AddMedia_def)
next
  case (cards_deleted d)
  then show ?case by (simp add: wf_store_def distinct_map_filter)
next
  case (notes_deleted d)
  then show ?case by (simp add: wf_store_def)
qed



section \<open>Decimal text, the number conversion and the result of a construction\<close>

lemma digits_small: "n < 10 \<Longrightarrow> digits n = [digit n]"
  by (simp add: digits.simps)

lemma digits_step: "10 \<le> n \<Longrightarrow> digits n = digits (n div 10) @ [digit (n mod 10)]"
  by (subst digits.simps) simp

lemma FormatInt_ex: "FormatInt 1700000000000 = ''1700000000000''"
  by (simp add: FormatInt_def digits_small digits_step digit_def)

lemma bitlen_le: "n < 2 ^ k \<Longrightarrow> bitlen n \<le> k"
proof (induction k arbitrary: n)
  case 0
  then show ?case by (simp add: bitlen.simps)
next
  case (Suc k)
  show ?case
  proof (cases "n = 0")
    case True
    then show ?thesis by (simp add: bitlen.simps)
  next
    case False
    from Suc.prems have "n div 2 < 2 ^ k" by simp
    from Suc.IH [OF this] False show ?thesis by (subst bitlen.simps) simp
  qed
qed

lemma float64_exact:
  assumes "\<bar>x\<bar> < 2 ^ 53"
  shows "float64 x = x"
proof -
  from assms have "nat \<bar>x\<bar> < 2 ^ 53" by (simp add: nat_less_iff)
  then have "bitlen (nat \<bar>x\<bar>) - 53 = 0" using bitlen_le [of "nat \<bar>x\<bar>" 53] by simp
  then show ?thesis by (simp add: float64_def Let_def mult_sgn_abs)
qed

lemma rangeLast_eq: "rangeLast order = (if order = [] then [] else last order)"
proof -
  have "fold (\<lambda>k lastKey. k) xs a = (if xs = [] then a else last xs)" for xs :: "string list" and a
    by (induction xs arbitrary: a) simp_all
  then show ?thesis by (simp add: rangeLast_def)
qed

lemma updateDeckName_renamed:
  assumes "decksUpdateFault env = None" and "rangeLast (decksOrder env) = ''1435588830424''"
    and "col_decks (db d) = seedDecks" and "FormatInt (topDeckID d) \<noteq> ''1''"
    and "\<bar>topDeckID d\<bar> < 2 ^ 53"
  shows "updateDeckName env d =
           Inr (d\<lparr>db := (db d)\<lparr>col_decks :=
                  JObj [(''1'', seedDeck ''Default'' 0 0 1 1435645724),
                        (FormatInt (topDeckID d),
                         seedDeck (json_coerce (name d)) (- 1) 545 (topDeckID d) 1435588830)]\<rparr>\<rparr>)"
  using assms
  by (simp add: updateDeckName_def seedDecks_def seedDeck_def float64_exact)

lemma updateDeckName_unrenamed:
  assumes "decksUpdateFault env = None" and "rangeLast (decksOrder env) = ''1''"
    and "col_decks (db d) = seedDecks"
  shows "updateDeckName env d = Inr (d\<lparr>db := (db d)\<lparr>col_decks := seedDecks\<rparr>\<rparr>)"
  using assms by (simp add: updateDeckName_def seedDecks_def)

lemma updateModel_renamed:
  assumes "modelsUpdateFault env = None" and "rangeLast (modelsOrder env) = ''1388596687391''"
    and "col_models (db d) = seedModels t"
    and "\<bar>topDeckID d\<bar> < 2 ^ 53" and "\<bar>topModelID d\<bar> < 2 ^ 53"
  shows "updateModel env d =
           Inr (d\<lparr>db := (db d)\<lparr>col_models :=
                  JObj [(FormatInt (topModelID d),
                         seedModel (json_coerce (name d)) (topDeckID d) (topModelID d) t)]\<rparr>\<rparr>)"
  using assms
  by (simp add: updateModel_def seedModels_def seedModel_def float64_exact)

lemma initializeDatabase_renamed:
  assumes f: "templateFault env = None" "decksUpdateFault env = None" "modelsUpdateFault env = None"
    and o: "rangeLast (decksOrder env) = ''1435588830424''"
           "rangeLast (modelsOrder env) = ''1388596687391''"
    and n: "FormatInt (init_now env) \<noteq> ''1''" "\<bar>init_now env\<bar> < 2 ^ 53"
  shows "initializeDatabase env topts d =
           Inr (d\<lparr>db := db (renamed_deck (name d) (init_now env) topts),
                  topDeckID := init_now env, topModelID := init_now env\<rparr>)"
proof -
  let ?ts = "init_now env"
  let ?d0 = "d\<lparr>db := createTemplate topts\<rparr>"
  let ?d2 = "?d0\<lparr>topDeckID := ?ts, topModelID := ?ts\<rparr>"
  let ?d3 = "?d2\<lparr>db := (db ?d2)\<lparr>col_decks :=
                  JObj [(''1'', seedDeck ''Default'' 0 0 1 1435645724),
                        (FormatInt ?ts, seedDeck (json_coerce (name d)) (- 1) 545 ?ts 1435588830)]\<rparr>\<rparr>"
  have g1: "getID ?d0 ''cards'' ''did'' ?ts = ?ts"
    by (rule getID_empty) (simp add: createTemplate_def)
  have g2: "getID (?d0\<lparr>topDeckID := ?ts\<rparr>) ''notes'' ''mid'' ?ts = ?ts"
    by (rule getID_empty) (simp add: createTemplate_def)
  have u1: "updateDeckName env ?d2 = Inr ?d3"
    using updateDeckName_renamed [of env ?d2] f o n by (simp add: createTemplate_def)
  have u2: "updateModel env ?d3 =
      Inr (?d3\<lparr>db := (db ?d3)\<lparr>col_models :=
             JObj [(FormatInt ?ts, seedModel (json_coerce (name d)) ?ts ?ts (withDefaults topts))]\<rparr>\<rparr>)"
    using updateModel_renamed [of env ?d3 "withDefaults topts"] f o n
    by (simp add: createTemplate_def)
  have "initializeDatabase env topts d =
      Inr (?d3\<lparr>db := (db ?d3)\<lparr>col_models :=
             JObj [(FormatInt ?ts, seedModel (json_coerce (name d)) ?ts ?ts (withDefaults topts))]\<rparr>\<rparr>)"
    by (simp only: initializeDatabase_def f Let_def option.case sum.case g1 g2 u1 u2)
  then show ?thesis by (simp add: renamed_deck_def createTemplate_def)
qed

lemma NewDeckWithTemplate_renamed:
  assumes "openFault env = None" "templateFault env = None" "decksUpdateFault env = None"
      "modelsUpdateFault env = None"
    and "rangeLast (decksOrder env) = ''1435588830424''"
        "rangeLast (modelsOrder env) = ''1388596687391''"
    and "FormatInt (init_now env) \<noteq> ''1''" "\<bar>init_now env\<bar> < 2 ^ 53"
  shows "NewDeckWithTemplate env nm topts = Inr (renamed_deck nm (init_now env) topts)"
  using assms
  by (simp add: NewDeckWithTemplate_def initializeDatabase_renamed renamed_deck_def)

lemma initializeDatabase_unrenamed:
  assumes f: "templateFault env = None" "decksUpdateFault env = None" "modelsUpdateFault env = None"
    and o: "rangeLast (decksOrder env) = ''1''"
           "rangeLast (modelsOrder env) = ''1388596687391''"
    and n: "\<bar>init_now env\<bar> < 2 ^ 53"
  shows "initializeDatabase env topts d =
           Inr (d\<lparr>db := db (unrenamed_deck (name d) (init_now env) topts),
                  topDeckID := init_now env, topModelID := init_now env\<rparr>)"
proof -
  let ?ts = "init_now env"
  let ?d0 = "d\<lparr>db := createTemplate topts\<rparr>"
  let ?d2 = "?d0\<lparr>topDeckID := ?ts, topModelID := ?ts\<rparr>"
  have g1: "getID ?d0 ''cards'' ''did'' ?ts = ?ts"
    by (rule getID_empty) (simp add: createTemplate_def)
  have g2: "getID (?d0\<lparr>topDeckID := ?ts\<rparr>) ''notes'' ''mid'' ?ts = ?ts"
    by (rule getID_empty) (simp add: createTemplate_def)
  have u1: "updateDeckName env ?d2 = Inr ?d2"
    using updateDeckName_unrenamed [of env ?d2] f o by (simp add: createTemplate_def)
  have u2: "updateModel env ?d2 =
      Inr (?d2\<lparr>db := (db ?d2)\<lparr>col_models :=
             JObj [(FormatInt ?ts, seedModel (json_coerce (name d)) ?ts ?ts (withDefaults topts))]\<rparr>\<rparr>)"
    using updateModel_renamed [of env ?d2 "withDefaults topts"] f o n
    by (simp add: createTemplate_def)
  have "initializeDatabase env topts d =
      Inr (?d2\<lparr>db := (db ?d2)\<lparr>col_models :=
             JObj [(FormatInt ?ts, seedModel (json_coerce (name d)) ?ts ?ts (withDefaults topts))]\<rparr>\<rparr>)"
    by (simp only: initializeDatabase_def f Let_def option.case sum.case g1 g2 u1 u2)
  then show ?thesis by (simp add: unrenamed_deck_def createTemplate_def)
qed

lemma NewDeckWithTemplate_unrenamed:
  assumes "openFault env = None" "templateFault env = None" "decksUpdateFault env = None"
      "modelsUpdateFault env = None"
    and "rangeLast (decksOrder env) = ''1''"
        "rangeLast (modelsOrder env) = ''1388596687391''"
    and "\<bar>init_now env\<bar> < 2 ^ 53"
  shows "NewDeckWithTemplate env nm topts = Inr (unrenamed_deck nm (init_now env) topts)"
  using assms
  by (simp add: NewDeckWithTemplate_def initializeDatabase_unrenamed unrenamed_deck_def)

lemma NewDeck_last_seed: "NewDeck init_last_seed nm = Inr (renamed_deck nm 1700000000000 None)"
  using NewDeckWithTemplate_renamed [of init_last_seed nm None]
  by (simp add: NewDeck_def init_last_seed_def rangeLast_def FormatInt_ex)

lemma NewDeck_last_default: "NewDeck init_last_default nm = Inr (unrenamed_deck nm 1700000000000 None)"
  using NewDeckWithTemplate_unrenamed [of init_last_default nm None]
  by (simp add: NewDeck_def init_last_default_def rangeLast_def)

lemma range_order_examples:
  "range_order (decksOrder init_last_seed) seedDecks"
  "range_order (decksOrder init_last_default) seedDecks"
  "range_order (modelsOrder init_last_seed) (seedModels t)"
  "range_order (modelsOrder init_last_default) (seedModels t)"
  by (auto simp add: range_order_def init_last_seed_def init_last_default_def seedDecks_def
        seedModels_def)

lemma reachable_test_deck: "reachable test_deck"
  using reachable.created [of init_last_seed "''Test Deck''" None test_deck] NewDeck_last_seed
  by (simp add: NewDeck_def test_deck_def)

lemma AddCard_ok: "AddCard env_ok d front back = (None, after_card env_ok d front back None)"
  by (simp add: AddCard_def AddCardWithOptions_cases env_ok_def)



section \<open>Adding the same content twice\<close>






section \<open>The deck id and the decks blob\<close>

text \<open>
  C2. A construction is meant to leave the decks blob with an entry under the decimal
  text of the new deck id, named after the deck, and without the seed key
  \<^verbatim>\<open>"1435588830424"\<close>. \<^verbatim>\<open>updateDeckName\<close> takes the key to rename from the last step of a
  loop over the map, and Go does not fix the order of that loop. In the run below the loop
  visits \<^verbatim>\<open>"1435588830424"\<close> first and \<^verbatim>\<open>"1"\<close> last: the construction succeeds, the deck id
  is 1700000000000, the blob has no entry under that key, and the seed entry is still
  there under its old key and name. (In the other order the entry is renamed, see
  \<open>NewDeck_last_seed\<close>.)
\<close>

theorem deck_name_not_written:
  "NewDeck init_last_default ''Test Deck'' = Inr (unrenamed_deck ''Test Deck'' 1700000000000 None) \<and>
   range_order (decksOrder init_last_default) seedDecks \<and>
   FormatInt (topDeckID (unrenamed_deck ''Test Deck'' 1700000000000 None)) = ''1700000000000'' \<and>
   lookup (col_decks (db (unrenamed_deck ''Test Deck'' 1700000000000 None))) ''1700000000000'' = None \<and>
   lookup (col_decks (db (unrenamed_deck ''Test Deck'' 1700000000000 None))) ''1435588830424''
     = Some (seedDeck ''Template'' (- 1) 545 1435588830424 1435588830)"
proof -
  have "range_order (decksOrder init_last_default) seedDecks"
    by (rule range_order_examples)
  moreover have "FormatInt (topDeckID (unrenamed_deck ''Test Deck'' 1700000000000 None)) = ''1700000000000''"
    by (simp add: unrenamed_deck_def FormatInt_ex)
  moreover have "lookup (col_decks (db (unrenamed_deck ''Test Deck'' 1700000000000 None))) ''1700000000000'' = None"
    by (simp add: unrenamed_deck_def lookup_def seedDecks_def)
  moreover have "lookup (col_decks (db (unrenamed_deck ''Test Deck'' 1700000000000 None))) ''1435588830424''
     = Some (seedDeck ''Template'' (- 1) 545 1435588830424 1435588830)"
    by (simp add: unrenamed_deck_def lookup_def seedDecks_def)
  ultimately show ?thesis using NewDeck_last_default [of "''Test Deck''"] by blast
qed




section \<open>The guid\<close>

lemma hexdigit_in: "k < 16 \<Longrightarrow> hexdigit k \<in> set ''0123456789abcdef''"
proof -
  assume "k < 16"
  then have "k < length ''0123456789abcdef''" by simp
  then show ?thesis unfolding hexdigit_def by (rule nth_mem)
qed

lemma set_hex: "set (hex bs) \<subseteq> set ''0123456789abcdef''"
proof (induction bs)
  case Nil
  show ?case by (simp add: hex_Nil)
next
  case (Cons b bs)
  have d: "(of_char b :: nat) div 16 < 16"
    using nat_of_char_less_256 [of b] by (simp add: less_mult_imp_div_less)
  have m: "(of_char b :: nat) mod 16 < 16" by simp
  have "set (hex (b # bs))
      = insert (hexdigit (of_char b div 16)) (insert (hexdigit (of_char b mod 16)) (set (hex bs)))"
    by (simp only: hex_Cons set_simps)
  with hexdigit_in [OF d] hexdigit_in [OF m] Cons show ?case by (metis insert_subset)
qed

text \<open>
  C4. The guid of a note is a function of the deck id, the front and the back alone: it
  does not depend on the deck that computes it, on the clock or on the options, it is the
  hexadecimal text of the SHA-1 digest of the decimal deck id followed by front and back,
  and it has 40 characters, all of them lower-case hexadecimal digits.
\<close>

theorem guid_deterministic:
  "getNoteGUID d1 deckID front back = getNoteGUID d2 deckID front back \<and>
   n_guid (new_note env d front back opts) = getNoteGUID d2 (topDeckID d) front back \<and>
   getNoteGUID d1 deckID front back = hex (sha1_Sum (FormatInt deckID @ front @ back)) \<and>
   length (getNoteGUID d1 deckID front back) = 40 \<and>
   set (getNoteGUID d1 deckID front back) \<subseteq> set ''0123456789abcdef''"
proof -
  have "set (getNoteGUID d1 deckID front back) \<subseteq> set ''0123456789abcdef''"
    unfolding getNoteGUID_def by (rule set_hex)
  moreover have "length (getNoteGUID d1 deckID front back) = 40"
    by (simp add: getNoteGUID_def length_hex length_sha1_Sum)
  moreover have "getNoteGUID d1 deckID front back = getNoteGUID d2 deckID front back"
    and "n_guid (new_note env d front back opts) = getNoteGUID d2 (topDeckID d) front back"
    and "getNoteGUID d1 deckID front back = hex (sha1_Sum (FormatInt deckID @ front @ back))"
    by (simp_all add: getNoteGUID_def new_note_def Let_def)
  ultimately show ?thesis by blast
qed

section \<open>The tag string\<close>

lemma Join_space_trailing:
  "Join_space (t # ts) @ '' '' = concat (map (\<lambda>x. x @ '' '') (t # ts))"
  by (induction ts arbitrary: t) simp_all

text \<open>
  C5, as the specification states it: the whitespace inside a tag becomes underscores.
  \<^verbatim>\<open>strings.ReplaceAll(tag, " ", "_")\<close> replaces the space character only: for the tag
  \<^verbatim>\<open>"a\tb"\<close> the stored string keeps the tab, where the wording gives \<^verbatim>\<open>" a_b "\<close>.
\<close>

theorem tags_serialized_counterexample:
  "tagsStr (Some \<lparr>Tags = [[CHR ''a'', CHR 0x09, CHR ''b'']]\<rparr>) = [CHR '' '', CHR ''a'', CHR 0x09, CHR ''b'', CHR '' ''] \<and>
   spec_tagsStr [[CHR ''a'', CHR 0x09, CHR ''b'']] = '' a_b '' \<and>
   tagsStr (Some \<lparr>Tags = [[CHR ''a'', CHR 0x09, CHR ''b'']]\<rparr>) \<noteq> spec_tagsStr [[CHR ''a'', CHR 0x09, CHR ''b'']]"
  by (simp add: tagsStr_def spec_tagsStr_def ReplaceAll_space_def is_whitespace_def)

text \<open>
  C5, amended. The stored tags string is empty when the options are absent or the tag
  list is empty; otherwise it is a space followed by every tag, each with its space
  characters (U+0020, no other character) replaced by underscores and followed by one
  space. The tags tag1, tag2, "multi word tag" give \<^verbatim>\<open>" tag1 tag2 multi_word_tag "\<close>.
\<close>

theorem tags_serialized:
  "tagsStr None = [] \<and>
   tagsStr (Some \<lparr>Tags = []\<rparr>) = [] \<and>
   tagsStr (Some \<lparr>Tags = t # ts\<rparr>)
     = '' '' @ concat (map (\<lambda>tag. map (\<lambda>c. if c = CHR '' '' then CHR ''_'' else c) tag @ '' '') (t # ts)) \<and>
   n_tags (new_note env d front back opts) = tagsStr opts \<and>
   tagsStr (Some \<lparr>Tags = [''tag1'', ''tag2'', ''multi word tag'']\<rparr>) = '' tag1 tag2 multi_word_tag ''"
proof -
  have "tagsStr (Some \<lparr>Tags = t # ts\<rparr>)
     = '' '' @ concat (map (\<lambda>tag. map (\<lambda>c. if c = CHR '' '' then CHR ''_'' else c) tag @ '' '') (t # ts))"
    using Join_space_trailing [of "ReplaceAll_space t" "map ReplaceAll_space ts"]
    by (simp add: tagsStr_def ReplaceAll_space_def comp_def)
  moreover have "tagsStr (Some \<lparr>Tags = [''tag1'', ''tag2'', ''multi word tag'']\<rparr>) = '' tag1 tag2 multi_word_tag ''"
    by (simp add: tagsStr_def ReplaceAll_space_def)
  ultimately show ?thesis by (simp add: tagsStr_def new_note_def Let_def)
qed

section \<open>A failure between the two statements\<close>

text \<open>
  C8, as the specification states it: when the note statement succeeds and the card
  statement fails, the note is left with no card. The same content added once with
  success and then again with a failing card statement: the call returns the error, the
  note row it wrote is in the table, and the card of the first call still belongs to it.
\<close>

theorem card_failure_counterexample:
  "noteFault env_card_fault = None \<and>
   fst (AddCard env_card_fault (snd (AddCard env_ok test_deck ''Front'' ''Back'')) ''Front'' ''Back'')
     = Some (Wrapped ''failed to insert card'' (StoreError ''database is locked'')) \<and>
   new_note env_card_fault (snd (AddCard env_ok test_deck ''Front'' ''Back'')) ''Front'' ''Back'' None
     \<in> set (notes_tbl (db (snd (AddCard env_card_fault
            (snd (AddCard env_ok test_deck ''Front'' ''Back'')) ''Front'' ''Back'')))) \<and>
   list_ex (\<lambda>c. c_nid c = n_id (new_note env_card_fault
                 (snd (AddCard env_ok test_deck ''Front'' ''Back'')) ''Front'' ''Back'' None))
     (cards_tbl (db (snd (AddCard env_card_fault
            (snd (AddCard env_ok test_deck ''Front'' ''Back'')) ''Front'' ''Back''))))"
proof -
  let ?d1 = "after_card env_ok test_deck ''Front'' ''Back'' None"
  let ?N1 = "new_note env_ok test_deck ''Front'' ''Back'' None"
  let ?N2 = "new_note env_card_fault ?d1 ''Front'' ''Back'' None"
  let ?C1 = "new_card env_ok (after_note env_ok test_deck ''Front'' ''Back'' None) (n_id ?N1)"
  have d1: "snd (AddCard env_ok test_deck ''Front'' ''Back'') = ?d1" by (simp add: AddCard_ok)
  have r: "AddCard env_card_fault ?d1 ''Front'' ''Back''
      = (Some (Wrapped ''failed to insert card'' (StoreError ''database is locked'')),
         after_note env_card_fault ?d1 ''Front'' ''Back'' None)"
    by (simp add: AddCard_def AddCardWithOptions_cases env_card_fault_def)
  have wf1: "wf_store (db ?d1)"
    by (rule wf_after_card [OF reachable_wf [OF reachable_test_deck]])
  have N1in: "?N1 \<in> set (notes_tbl (db ?d1))" by (simp add: notes_after_card)
  have C1in: "?C1 \<in> set (cards_tbl (db ?d1))" by (simp add: cards_after_card)
  have "getNoteID ?d1 (n_guid ?N1) (now env_card_fault) = n_id ?N1"
    using wf1 N1in by (intro getNoteID_existing) (simp_all add: wf_store_def)
  then have id2: "n_id ?N2 = n_id ?N1"
    by (simp add: n_id_new_note n_guid_new_note getNoteGUID_def)
  have "c_nid ?C1 = n_id ?N2" by (simp add: new_card_def id2)
  with C1in have "list_ex (\<lambda>c. c_nid c = n_id ?N2) (cards_tbl (db ?d1))"
    unfolding list_ex_iff by blast
  moreover have "noteFault env_card_fault = None" by (simp add: env_card_fault_def)
  ultimately show ?thesis
    by (simp add: d1 r cards_after_note notes_after_note)
qed

text \<open>
  C8, amended. When the note statement succeeds and the card statement fails, the call
  returns the store's error wrapped as "failed to insert card", the note row it wrote
  stays in the table \<^verbatim>\<open>notes\<close> and the table \<^verbatim>\<open>cards\<close> is as it was before the call
  (nothing is rolled back and no card is written); so the note has a card afterwards
  exactly when a card with its id as \<^verbatim>\<open>nid\<close> was there before.
\<close>

theorem card_failure_keeps_note:
  assumes "noteFault env = None" and "cardFault env = Some msg"
  shows "\<exists>d'. AddCardWithOptions env d front back opts
                = (Some (Wrapped ''failed to insert card'' (StoreError msg)), d') \<and>
              new_note env d front back opts \<in> set (notes_tbl (db d')) \<and>
              cards_tbl (db d') = cards_tbl (db d) \<and>
              list_ex (\<lambda>c. c_nid c = n_id (new_note env d front back opts)) (cards_tbl (db d'))
                = list_ex (\<lambda>c. c_nid c = n_id (new_note env d front back opts)) (cards_tbl (db d))"
  using assms by (simp add: AddCardWithOptions_cases notes_after_note cards_after_note)

theorem card_failure_keeps_note_witness:
  "fst (AddCardWithOptions env_card_fault test_deck ''Front'' ''Back'' None)
     = Some (Wrapped ''failed to insert card'' (StoreError ''database is locked'')) \<and>
   notes_tbl (db (snd (AddCardWithOptions env_card_fault test_deck ''Front'' ''Back'' None)))
     = [new_note env_card_fault test_deck ''Front'' ''Back'' None] \<and>
   cards_tbl (db (snd (AddCardWithOptions env_card_fault test_deck ''Front'' ''Back'' None))) = []"
proof -
  have f: "noteFault env_card_fault = None" "cardFault env_card_fault = Some ''database is locked''"
    by (simp_all add: env_card_fault_def)
  from card_failure_keeps_note [OF f, of test_deck "''Front''" "''Back''" None]
  obtain d' where d': "AddCardWithOptions env_card_fault test_deck ''Front'' ''Back'' None
        = (Some (Wrapped ''failed to insert card'' (StoreError ''database is locked'')), d')"
      "cards_tbl (db d') = cards_tbl (db test_deck)"
    by blast
  have "notes_tbl (db (snd (AddCardWithOptions env_card_fault test_deck ''Front'' ''Back'' None)))
     = [new_note env_card_fault test_deck ''Front'' ''Back'' None]"
    by (simp add: AddCardWithOptions_cases f notes_after_note test_deck_def renamed_deck_def)
  with d' show ?thesis by (simp add: test_deck_def renamed_deck_def)
qed

section \<open>The markup of the media helpers\<close>

text \<open>
  C9. \<^verbatim>\<open>AddAudio\<close>, \<^verbatim>\<open>AddImage\<close> and \<^verbatim>\<open>AddVideo\<close> append the media entry to the list of the
  deck, leave the store alone and return the sound marker, the image element and the
  video element that name the file; for \<^verbatim>\<open>x.mp3\<close>, \<^verbatim>\<open>x.png\<close> and \<^verbatim>\<open>x.mp4\<close> these are the
  three texts of the specification (the byte 0x22 is the double quote).
\<close>

theorem media_helpers_markup:
  "AddAudio d filename data = (''[sound:'' @ filename @ '']'', AddMedia d filename data) \<and>
   AddImage d filename data = (''<img src='' @ [CHR 0x22] @ filename @ [CHR 0x22] @ ''>'', AddMedia d filename data) \<and>
   AddVideo d filename data
     = (''<video controls><source src='' @ [CHR 0x22] @ filename @ [CHR 0x22] @ ''></video>'',
        AddMedia d filename data) \<and>
   media (AddMedia d filename data) = media d @ [\<lparr>Filename = filename, Data = data\<rparr>] \<and>
   db (AddMedia d filename data) = db d \<and>
   fst (AddAudio d ''x.mp3'' data) = ''[sound:x.mp3]'' \<and>
   fst (AddImage d ''x.png'' data) = ''<img src='' @ [CHR 0x22] @ ''x.png'' @ [CHR 0x22] @ ''>'' \<and>
   fst (AddVideo d ''x.mp4'' data)
     = ''<video controls><source src='' @ [CHR 0x22] @ ''x.mp4'' @ [CHR 0x22] @ ''></video>''"
  by (simp add: AddAudio_def AddImage_def AddVideo_def AddMedia_def dquote_def)

section \<open>The rows that a call writes\<close>

lemma affinity_examples:
  "integer_affinity ''007'' = SqlInt 7"
  "integer_affinity ''Front'' = SqlText ''Front''"
  by (simp_all add: integer_affinity_def sqlite3AtoF_def sqlite3Isspace_def sqlite3Isdigit_def
        strip_sign_def exponent_part_def dec_val_def Let_def)

lemma affinity_keeps_word:
  assumes "front = c # r" and "\<not> sqlite3Isspace c" and "\<not> sqlite3Isdigit c"
    and "c \<noteq> CHR ''-''" and "c \<noteq> CHR ''+''" and "c \<noteq> CHR ''.''"
  shows "integer_affinity front = SqlText front"
  using assms
  by (simp add: integer_affinity_def sqlite3AtoF_def strip_sign_def Let_def)

text \<open>
  C7, as the specification states it: the note row has sfld = front. The column is an
  integer column, so the store keeps a front that reads as a number as that number: after
  \<^verbatim>\<open>AddCard("007", "Back")\<close> on the deck of the tests the one note row has the integer 7 in
  \<^verbatim>\<open>sfld\<close> (and the text 007 in \<^verbatim>\<open>flds\<close>).
\<close>

theorem sfld_numeric_text:
  "fst (AddCard env_ok test_deck ''007'' ''Back'') = None \<and>
   map n_sfld (notes_tbl (db (snd (AddCard env_ok test_deck ''007'' ''Back'')))) = [SqlInt 7] \<and>
   map n_flds (notes_tbl (db (snd (AddCard env_ok test_deck ''007'' ''Back''))))
     = [''007'' @ separator @ ''Back''] \<and>
   SqlInt 7 \<noteq> SqlText ''007''"
  by (simp add: AddCard_ok notes_after_card test_deck_def renamed_deck_def new_note_def Let_def
        affinity_examples)

text \<open>
  C7, amended. Every successful \<^verbatim>\<open>AddCard\<close> or \<^verbatim>\<open>AddCardWithOptions\<close> leaves in the table
  \<^verbatim>\<open>notes\<close> a row with the guid of the content, the model id of the deck, usn \<open>-1\<close>,
  the normalised tags, flds = front, U+001F, back, csum = the first four bytes of the
  SHA-1 digest of flds read as a number (below \<open>2 ^ 32\<close>), flags 0 and empty data, and
  with sfld = front as the integer column keeps it: the text front when front is not a
  well-formed number, the integer when front is a well-formed integer of 64 bits (white
  space around it allowed), a number otherwise. It leaves in the table \<^verbatim>\<open>cards\<close> a row for
  that note with the id of the deck, ordinal 0, usn \<open>-1\<close>, type 0, queue 0, due 179, and 0
  in ivl, factor, reps, lapses, left, odue, odid and flags.
\<close>

theorem AddCardWithOptions_rows:
  assumes "AddCardWithOptions env d front back opts = (None, d')"
  shows "\<exists>note card.
           note \<in> set (notes_tbl (db d')) \<and> card \<in> set (cards_tbl (db d')) \<and>
           n_guid note = getNoteGUID d (topDeckID d) front back \<and>
           n_mid note = topModelID d \<and>
           n_usn note = - 1 \<and>
           n_tags note = tagsStr opts \<and>
           n_flds note = front @ separator @ back \<and>
           n_sfld note = integer_affinity front \<and>
           (sqlite3AtoF front = NotNumeric \<longrightarrow> n_sfld note = SqlText front) \<and>
           (\<forall>v. sqlite3AtoF front = IntLit v \<and> - (2 ^ 63) \<le> v \<and> v < 2 ^ 63 \<longrightarrow> n_sfld note = SqlInt v) \<and>
           n_csum note = int (be_nat (take 4 (sha1_Sum (front @ separator @ back)))) \<and>
           n_csum note < 2 ^ 32 \<and>
           n_flags note = 0 \<and>
           n_data note = [] \<and>
           c_nid card = n_id note \<and>
           c_did card = topDeckID d \<and>
           c_ord card = 0 \<and> c_usn card = - 1 \<and> c_type card = 0 \<and> c_queue card = 0 \<and>
           c_due card = 179 \<and> c_ivl card = 0 \<and> c_factor card = 0 \<and> c_reps card = 0 \<and>
           c_lapses card = 0 \<and> c_left card = 0 \<and> c_odue card = 0 \<and> c_odid card = 0 \<and>
           c_flags card = 0 \<and> c_data card = []"
proof -
  let ?n = "new_note env d front back opts"
  let ?c = "new_card env (after_note env d front back opts) (n_id ?n)"
  from assms have d': "d' = after_card env d front back opts"
    by (simp add: AddCardWithOptions_None)
  have n: "?n \<in> set (notes_tbl (db d'))" by (simp add: d' notes_after_card)
  have c: "?c \<in> set (cards_tbl (db d'))" by (simp add: d' cards_after_card)
  have nf: "n_guid ?n = getNoteGUID d (topDeckID d) front back \<and> n_mid ?n = topModelID d \<and>
      n_usn ?n = - 1 \<and> n_tags ?n = tagsStr opts \<and> n_flds ?n = front @ separator @ back \<and>
      n_sfld ?n = integer_affinity front \<and> n_flags ?n = 0 \<and> n_data ?n = []"
    by (simp add: new_note_def Let_def)
  have s1: "sqlite3AtoF front = NotNumeric \<longrightarrow> n_sfld ?n = SqlText front"
    by (simp add: new_note_def Let_def integer_affinity_def)
  have s2: "\<forall>v. sqlite3AtoF front = IntLit v \<and> - (2 ^ 63) \<le> v \<and> v < 2 ^ 63 \<longrightarrow> n_sfld ?n = SqlInt v"
    by (simp add: new_note_def Let_def integer_affinity_def)
  have cs: "n_csum ?n = int (be_nat (take 4 (sha1_Sum (front @ separator @ back))))"
    by (simp add: new_note_def Let_def checksum_eq)
  have cr: "n_csum ?n < 2 ^ 32"
    using checksum_range [of d "front @ separator @ back"] by (simp add: new_note_def Let_def)
  have cf: "c_nid ?c = n_id ?n \<and> c_did ?c = topDeckID d \<and>
      c_ord ?c = 0 \<and> c_usn ?c = - 1 \<and> c_type ?c = 0 \<and> c_queue ?c = 0 \<and>
      c_due ?c = 179 \<and> c_ivl ?c = 0 \<and> c_factor ?c = 0 \<and> c_reps ?c = 0 \<and>
      c_lapses ?c = 0 \<and> c_left ?c = 0 \<and> c_odue ?c = 0 \<and> c_odid ?c = 0 \<and>
      c_flags ?c = 0 \<and> c_data ?c = []"
    by (simp add: new_card_def)
  from n c nf s1 s2 cs cr cf show ?thesis by blast
qed

theorem AddCardWithOptions_rows_witness:
  "\<exists>note card.
     note \<in> set (notes_tbl (db (snd (AddCardWithOptions env_ok test_deck ''Front'' ''Back'' None)))) \<and>
     card \<in> set (cards_tbl (db (snd (AddCardWithOptions env_ok test_deck ''Front'' ''Back'' None)))) \<and>
     n_flds note = ''Front'' @ separator @ ''Back'' \<and> n_sfld note = SqlText ''Front'' \<and>
     n_usn note = - 1 \<and>
     c_nid card = n_id note \<and> c_did card = 1700000000000 \<and> c_due card = 179"
proof -
  have ok: "AddCardWithOptions env_ok test_deck ''Front'' ''Back'' None
              = (None, snd (AddCardWithOptions env_ok test_deck ''Front'' ''Back'' None))"
    by (simp add: AddCardWithOptions_cases env_ok_def)
  have t: "topDeckID test_deck = 1700000000000" by (simp add: test_deck_def renamed_deck_def)
  from AddCardWithOptions_rows [OF ok] show ?thesis
    unfolding t affinity_examples by blast
qed

section \<open>The entries of the archive\<close>

lemma json_coerce_valid: "ValidString s \<Longrightarrow> json_coerce s = s"
proof (induction s rule: json_coerce.induct)
  case 1
  show ?case by simp
next
  case (2 c r)
  from "2.prems" have n: "rune_len (c # r) \<noteq> 0"
    and v: "ValidString (drop (rune_len (c # r)) (c # r))"
    by (simp_all split: if_splits)
  from "2.IH"(2) [OF n v] n show ?case
    by (simp only: json_coerce.simps if_False append_take_drop_id)
qed

lemma dec_val_snoc: "dec_val (s @ [c]) = 10 * dec_val s + (of_char c - 48)"
  by (simp add: dec_val_def)

lemma of_char_digit: "k < 10 \<Longrightarrow> (of_char (digit k) :: nat) - 48 = k"
proof -
  assume "k < 10"
  then have "k = 0 \<or> k = 1 \<or> k = 2 \<or> k = 3 \<or> k = 4 \<or> k = 5 \<or> k = 6 \<or> k = 7
      \<or> k = 8 \<or> k = 9" by arith
  moreover have "(of_char (digit 0) :: nat) - 48 = 0" "(of_char (digit 1) :: nat) - 48 = 1"
    "(of_char (digit 2) :: nat) - 48 = 2" "(of_char (digit 3) :: nat) - 48 = 3"
    "(of_char (digit 4) :: nat) - 48 = 4" "(of_char (digit 5) :: nat) - 48 = 5"
    "(of_char (digit 6) :: nat) - 48 = 6" "(of_char (digit 7) :: nat) - 48 = 7"
    "(of_char (digit 8) :: nat) - 48 = 8" "(of_char (digit 9) :: nat) - 48 = 9"
    by (simp_all add: digit_def)
  ultimately show ?thesis by (elim disjE) (simp_all only:)
qed

lemma dec_val_digits: "dec_val (digits n) = n"
proof (induction n rule: digits.induct)
  case (1 n)
  show ?case
  proof (cases "n < 10")
    case True
    then show ?thesis by (simp add: digits_small dec_val_def of_char_digit)
  next
    case False
    then have "dec_val (digits (n div 10)) = n div 10" by (rule "1.IH")
    with False show ?thesis
      by (simp add: digits_step dec_val_snoc of_char_digit)
  qed
qed

lemma Itoa_digits: "Itoa i = digits i"
  by (simp add: Itoa_def FormatInt_def)

lemma inj_Itoa: "inj Itoa"
proof (rule injI)
  fix i j assume "Itoa i = Itoa j"
  then have "dec_val (digits i) = dec_val (digits j)" by (simp add: Itoa_digits)
  then show "i = j" by (simp add: dec_val_digits)
qed

lemma digit_in: "k < 10 \<Longrightarrow> digit k \<in> set ''0123456789''"
proof -
  assume "k < 10"
  then have "k < length ''0123456789''" by simp
  then show ?thesis unfolding digit_def by (rule nth_mem)
qed

lemma set_digits: "set (digits n) \<subseteq> set ''0123456789''"
proof (induction n rule: digits.induct)
  case (1 n)
  show ?case
  proof (cases "n < 10")
    case True
    have "set (digits n) = {digit n}" using True by (simp only: digits_small list.set)
    with digit_in [OF True] show ?thesis by (metis empty_subsetI insert_subset)
  next
    case False
    then have ih: "set (digits (n div 10)) \<subseteq> set ''0123456789''" by (rule "1.IH")
    have m: "n mod 10 < 10" by simp
    have "set (digits n) = set (digits (n div 10)) \<union> {digit (n mod 10)}"
      using False by (simp only: digits_step set_append list.set not_less)
    with digit_in [OF m] ih show ?thesis by (metis Un_least empty_subsetI insert_subset)
  qed
qed

lemma Itoa_not_name: "Itoa i \<noteq> ''collection.anki2''" "Itoa i \<noteq> ''media''"
proof -
  have c: "CHR ''c'' \<notin> set ''0123456789''" and m: "CHR ''m'' \<notin> set ''0123456789''"
    by simp_all
  from c set_digits [of i] have "CHR ''c'' \<notin> set (Itoa i)" unfolding Itoa_digits by blast
  moreover have "CHR ''c'' \<in> set ''collection.anki2''" by simp
  ultimately show "Itoa i \<noteq> ''collection.anki2''" by metis
  from m set_digits [of i] have "CHR ''m'' \<notin> set (Itoa i)" unfolding Itoa_digits by blast
  moreover have "CHR ''m'' \<in> set ''media''" by simp
  ultimately show "Itoa i \<noteq> ''media''" by metis
qed

lemma manifest_put_apply:
  "manifest_put (n, m) mp k = (if k = Itoa n then Some (Filename m) else mp k)"
  by (simp add: manifest_put_def)

lemma mediaMap_other:
  assumes "k \<notin> Itoa ` {n..<n + length ms}"
  shows "fold manifest_put (enumerate n ms) mp k = mp k"
  using assms
proof (induction ms arbitrary: n mp)
  case Nil
  show ?case by simp
next
  case (Cons m ms)
  have "n \<in> {n..<n + length (m # ms)}" by simp
  with Cons.prems have k: "k \<noteq> Itoa n" by blast
  have "{Suc n..<Suc n + length ms} \<subseteq> {n..<n + length (m # ms)}" by auto
  with Cons.prems have "k \<notin> Itoa ` {Suc n..<Suc n + length ms}" by blast
  then have "fold manifest_put (enumerate (Suc n) ms) (manifest_put (n, m) mp) k
      = manifest_put (n, m) mp k" by (rule Cons.IH)
  also have "\<dots> = mp k" using k by (simp add: manifest_put_apply)
  finally show ?case by (simp only: enumerate_simps fold_simps comp_apply)
qed

lemma mediaMap_at:
  assumes "i < length ms"
  shows "fold manifest_put (enumerate n ms) mp (Itoa (n + i)) = Some (Filename (ms ! i))"
  using assms
proof (induction ms arbitrary: n mp i)
  case Nil
  then show ?case by simp
next
  case (Cons m ms)
  show ?case
  proof (cases i)
    case 0
    have "Itoa n \<notin> Itoa ` {Suc n..<Suc n + length ms}"
    proof
      assume "Itoa n \<in> Itoa ` {Suc n..<Suc n + length ms}"
      then obtain j where "Suc n \<le> j" "Itoa n = Itoa j" by auto
      with injD [OF inj_Itoa, of n j] show False by simp
    qed
    then have "fold manifest_put (enumerate (Suc n) ms) (manifest_put (n, m) mp) (Itoa n)
        = manifest_put (n, m) mp (Itoa n)" by (rule mediaMap_other)
    also have "\<dots> = Some (Filename m)" by (simp add: manifest_put_apply)
    finally have "fold manifest_put (enumerate n (m # ms)) mp (Itoa n) = Some (Filename m)"
      by (simp only: enumerate_simps fold_simps comp_apply)
    with 0 show ?thesis by simp
  next
    case (Suc j)
    with Cons.prems have "j < length ms" by simp
    then have "fold manifest_put (enumerate (Suc n) ms) (manifest_put (n, m) mp) (Itoa (Suc n + j))
        = Some (Filename (ms ! j))" by (rule Cons.IH)
    then have "fold manifest_put (enumerate n (m # ms)) mp (Itoa (Suc n + j))
        = Some (Filename (ms ! j))"
      by (simp only: enumerate_simps fold_simps comp_apply)
    with Suc show ?thesis by simp
  qed
qed

lemma mediaMap_index:
  "i < length ms \<Longrightarrow> mediaMap ms (Itoa i) = Some (Filename (ms ! i))"
  using mediaMap_at [of i ms 0 Map.empty] by (simp add: mediaMap_def)

lemma mediaMap_dom: "dom (mediaMap ms) = Itoa ` {0..<length ms}"
proof
  show "dom (mediaMap ms) \<subseteq> Itoa ` {0..<length ms}"
  proof
    fix k assume k: "k \<in> dom (mediaMap ms)"
    show "k \<in> Itoa ` {0..<length ms}"
    proof (rule ccontr)
      assume "k \<notin> Itoa ` {0..<length ms}"
      then have "k \<notin> Itoa ` {0..<0 + length ms}" by simp
      from mediaMap_other [OF this, of Map.empty] have "mediaMap ms k = None"
        by (simp add: mediaMap_def)
      with k show False by auto
    qed
  qed
  show "Itoa ` {0..<length ms} \<subseteq> dom (mediaMap ms)"
  proof
    fix k assume "k \<in> Itoa ` {0..<length ms}"
    then obtain i where "i < length ms" "k = Itoa i" by auto
    with mediaMap_index [of i ms] show "k \<in> dom (mediaMap ms)" by auto
  qed
qed

lemma map_enumerate_nth:
  "map (\<lambda>(i, m). f i m) (enumerate 0 ms) = map (\<lambda>i. f i (ms ! i)) [0..<length ms]"
  by (rule nth_equalityI) (simp_all add: nth_enumerate_eq)

lemma Save_Inr:
  "Save (Inr dbData) d =
     Inr ((''collection.anki2'', Raw dbData)
          # (''media'', Manifest (json_Marshal_map (mediaMap (media d))))
          # map (\<lambda>i. (Itoa i, Raw (Data (media d ! i)))) [0..<length (media d)])"
proof -
  have "map (\<lambda>(i, m). (Itoa i, Raw (Data m))) (enumerate 0 (media d))
      = map (\<lambda>i. (Itoa i, Raw (Data (media d ! i)))) [0..<length (media d)]"
    by (rule map_enumerate_nth)
  then show ?thesis by (simp add: Save_def)
qed

lemma manifest_entry_Save:
  "manifest_entry ((''collection.anki2'', x) # (''media'', Manifest mf) # rest) k = mf k"
  by (simp add: manifest_entry_def)

text \<open>
  C6, as the specification states it: the manifest maps every index to the file name of
  the media entry. \<^verbatim>\<open>json.Marshal\<close> coerces strings to valid UTF-8: for the one media file
  \<^verbatim>\<open>caf\xe9.png\<close> the manifest has, under \<^verbatim>\<open>"0"\<close>, the name with U+FFFD in place of the
  byte E9.
\<close>

theorem manifest_invalid_utf8:
  "map Filename (media (AddMedia test_deck latin1_name ''x'')) = [''caf'' @ [CHR 0xE9] @ ''.png''] \<and>
   map_sum id (\<lambda>z. manifest_entry z ''0'') (Save (Inr ''SQLite format 3'') (AddMedia test_deck latin1_name ''x''))
     = Inr (Some (''caf'' @ [CHR 0xEF, CHR 0xBF, CHR 0xBD] @ ''.png'')) \<and>
   ''caf'' @ [CHR 0xEF, CHR 0xBF, CHR 0xBD] @ ''.png'' \<noteq> ''caf'' @ [CHR 0xE9] @ ''.png''"
proof -
  let ?d = "AddMedia test_deck latin1_name ''x''"
  have m: "media ?d = [\<lparr>Filename = latin1_name, Data = ''x''\<rparr>]"
    by (simp add: AddMedia_def test_deck_def renamed_deck_def)
  have i0: "Itoa 0 = ''0''" by (simp add: Itoa_digits digits_small digit_def)
  have "mediaMap (media ?d) (Itoa 0) = Some (Filename (media ?d ! 0))"
    by (rule mediaMap_index) (simp add: m)
  then have a: "json_Marshal_map (mediaMap (media ?d)) ''0'' = Some (json_coerce latin1_name)"
    by (simp add: json_Marshal_map_def i0 m)
  have b: "json_coerce latin1_name = ''caf'' @ [CHR 0xEF, CHR 0xBF, CHR 0xBD] @ ''.png''"
    by (simp add: latin1_name_def rune_len_def)
  have f: "map Filename (media ?d) = [''caf'' @ [CHR 0xE9] @ ''.png'']"
    unfolding m by (simp add: latin1_name_def)
  have "map_sum id (\<lambda>z. manifest_entry z ''0'') (Save (Inr ''SQLite format 3'') ?d)
      = Inr (json_Marshal_map (mediaMap (media ?d)) ''0'')"
    by (simp only: Save_Inr map_sum.simps id_apply manifest_entry_Save)
  then have g: "map_sum id (\<lambda>z. manifest_entry z ''0'') (Save (Inr ''SQLite format 3'') ?d)
      = Inr (Some (''caf'' @ [CHR 0xEF, CHR 0xBF, CHR 0xBD] @ ''.png''))"
    by (simp only: a b)
  have h: "''caf'' @ [CHR 0xEF, CHR 0xBF, CHR 0xBD] @ ''.png'' \<noteq> ''caf'' @ [CHR 0xE9] @ ''.png''"
    by simp
  from f g h show ?thesis by (intro conjI)
qed

text \<open>
  C6, amended. A successful \<^verbatim>\<open>Save\<close> returns an archive whose entries are, in this order,
  \<^verbatim>\<open>collection.anki2\<close> with the bytes of the database snapshot, \<^verbatim>\<open>media\<close> with the
  manifest, and one entry per media item, named by the decimal text of its index and
  holding its bytes. The names are pairwise distinct. The keys of the manifest are the
  decimal texts of the indices, and the manifest maps the index of an item to its file
  name coerced to valid UTF-8, which is the file name itself when that is valid UTF-8.
\<close>

theorem Save_entries:
  assumes "Save exported d = Inr z"
  shows "\<exists>dbData mf.
           exported = Inr dbData \<and>
           z = (''collection.anki2'', Raw dbData) # (''media'', Manifest mf)
               # map (\<lambda>i. (Itoa i, Raw (Data (media d ! i)))) [0..<length (media d)] \<and>
           dom mf = Itoa ` {0..<length (media d)} \<and>
           distinct (map fst z) \<and>
           (\<forall>i<length (media d).
               mf (Itoa i) = Some (json_coerce (Filename (media d ! i))) \<and>
               (ValidString (Filename (media d ! i)) \<longrightarrow> mf (Itoa i) = Some (Filename (media d ! i))) \<and>
               map_of z (Itoa i) = Some (Raw (Data (media d ! i))))"
proof -
  let ?n = "length (media d)"
  let ?mf = "json_Marshal_map (mediaMap (media d))"
  let ?files = "map (\<lambda>i. (Itoa i, Raw (Data (media d ! i)))) [0..<?n]"
  from assms obtain dbData where e: "exported = Inr dbData"
    by (cases exported) (simp_all add: Save_def)
  have z: "z = (''collection.anki2'', Raw dbData) # (''media'', Manifest ?mf) # ?files"
    using assms unfolding e Save_Inr by simp
  have dm: "dom ?mf = Itoa ` {0..<?n}"
    using mediaMap_dom [of "media d"] by (auto simp add: json_Marshal_map_def dom_def)
  have dI: "distinct (map Itoa [0..<?n])"
    by (simp add: distinct_map inj_on_subset [OF inj_Itoa])
  have keys: "map fst ?files = map Itoa [0..<?n]"
    by (simp add: comp_def)
  have notin: "nm \<notin> set (map Itoa [0..<?n])" if "\<And>i. Itoa i \<noteq> nm" for nm
  proof
    assume "nm \<in> set (map Itoa [0..<?n])"
    then obtain i where "Itoa i = nm" unfolding set_map by (rule imageE) simp
    with that show False by simp
  qed
  have nc: "''collection.anki2'' \<notin> set (map Itoa [0..<?n])"
    by (rule notin) (rule Itoa_not_name)
  have nm: "''media'' \<notin> set (map Itoa [0..<?n])"
    by (rule notin) (rule Itoa_not_name)
  have "map fst z = ''collection.anki2'' # ''media'' # map Itoa [0..<?n]"
    unfolding z by (simp only: list.map fst_conv keys)
  then have dz: "distinct (map fst z)"
    using dI nc nm by simp
  have look: "?mf (Itoa i) = Some (json_coerce (Filename (media d ! i))) \<and>
      (ValidString (Filename (media d ! i)) \<longrightarrow> ?mf (Itoa i) = Some (Filename (media d ! i))) \<and>
      map_of z (Itoa i) = Some (Raw (Data (media d ! i)))" if i: "i < ?n" for i
  proof -
    have a: "?mf (Itoa i) = Some (json_coerce (Filename (media d ! i)))"
      using mediaMap_index [OF i] by (simp add: json_Marshal_map_def)
    have b: "map_of ?files (Itoa i) = Some (Raw (Data (media d ! i)))"
    proof (rule map_of_is_SomeI)
      show "distinct (map fst ?files)" unfolding keys by (rule dI)
      show "(Itoa i, Raw (Data (media d ! i))) \<in> set ?files" using i by auto
    qed
    have c: "map_of z (Itoa i) = map_of ?files (Itoa i)"
      unfolding z using Itoa_not_name [of i] by (simp only: map_of.simps fst_conv snd_conv) simp
    from a b c json_coerce_valid [of "Filename (media d ! i)"] show ?thesis by simp
  qed
  from e z dm dz look show ?thesis by blast
qed

theorem Save_entries_witness:
  "map_sum id (map fst)
     (Save (Inr ''SQLite format 3'') (AddMedia (AddMedia test_deck ''a.png'' ''xx'') ''b.mp3'' ''yy''))
     = Inr [''collection.anki2'', ''media'', ''0'', ''1''] \<and>
   map_sum id (\<lambda>z. map (manifest_entry z) [''0'', ''1''])
     (Save (Inr ''SQLite format 3'') (AddMedia (AddMedia test_deck ''a.png'' ''xx'') ''b.mp3'' ''yy''))
     = Inr [Some ''a.png'', Some ''b.mp3''] \<and>
   map_sum id (\<lambda>z. map (map_of z) [''collection.anki2'', ''0'', ''1''])
     (Save (Inr ''SQLite format 3'') (AddMedia (AddMedia test_deck ''a.png'' ''xx'') ''b.mp3'' ''yy''))
     = Inr [Some (Raw ''SQLite format 3''), Some (Raw ''xx''), Some (Raw ''yy'')]"
proof -
  let ?d = "AddMedia (AddMedia test_deck ''a.png'' ''xx'') ''b.mp3'' ''yy''"
  let ?mf = "json_Marshal_map (mediaMap (media ?d))"
  let ?z = "(''collection.anki2'', Raw ''SQLite format 3'') # (''media'', Manifest ?mf)
      # map (\<lambda>i. (Itoa i, Raw (Data (media ?d ! i)))) [0..<length (media ?d)]"
  have m: "media ?d = [\<lparr>Filename = ''a.png'', Data = ''xx''\<rparr>, \<lparr>Filename = ''b.mp3'', Data = ''yy''\<rparr>]"
    by (simp add: AddMedia_def test_deck_def renamed_deck_def)
  have s: "Save (Inr ''SQLite format 3'') ?d = Inr ?z" by (rule Save_Inr)
  have u: "[0..<2] = [0, Suc 0]" by (simp add: upt_rec)
  have i0: "Itoa 0 = ''0''" and i1: "Itoa (Suc 0) = ''1''"
    by (simp_all add: Itoa_digits digits_small digit_def)
  have c: "json_coerce ''a.png'' = ''a.png''" "json_coerce ''b.mp3'' = ''b.mp3''"
    by (simp_all add: rune_len_def)
  from Save_entries [OF s] obtain dbData mf where
      z: "?z = (''collection.anki2'', Raw dbData) # (''media'', Manifest mf)
            # map (\<lambda>i. (Itoa i, Raw (Data (media ?d ! i)))) [0..<length (media ?d)]"
    and l: "\<forall>i<length (media ?d).
               mf (Itoa i) = Some (json_coerce (Filename (media ?d ! i))) \<and>
               (ValidString (Filename (media ?d ! i)) \<longrightarrow> mf (Itoa i) = Some (Filename (media ?d ! i))) \<and>
               map_of ?z (Itoa i) = Some (Raw (Data (media ?d ! i)))"
    by blast
  from z have mf: "mf = ?mf" by simp
  have "0 < length (media ?d)" and "Suc 0 < length (media ?d)" by (simp_all add: m)
  with l have "mf (Itoa 0) = Some (json_coerce (Filename (media ?d ! 0)))"
    and "mf (Itoa (Suc 0)) = Some (json_coerce (Filename (media ?d ! Suc 0)))"
    by blast+
  then have "?mf ''0'' = Some ''a.png''" and "?mf ''1'' = Some ''b.mp3''"
    unfolding mf i0 i1 by (simp_all add: m c del: json_coerce.simps)
  then have e: "map (manifest_entry ?z) [''0'', ''1''] = [Some ''a.png'', Some ''b.mp3'']"
    by (simp only: manifest_entry_Save list.map)
  have f: "map fst ?z = [''collection.anki2'', ''media'', ''0'', ''1'']"
    by (simp add: m u i0 i1)
  have g: "map (map_of ?z) [''collection.anki2'', ''0'', ''1'']
      = [Some (Raw ''SQLite format 3''), Some (Raw ''xx''), Some (Raw ''yy'')]"
    by (simp add: m u i0 i1)
  show ?thesis unfolding s by (simp only: map_sum.simps id_apply e f g simp_thms)
qed

end
